theory Spec2Isabelle
  imports Main "HOL-Library.Word"
begin

section \<open>The LINE messaging client: data model\<close>

text \<open>
  A shallow embedding of \<^verbatim>\<open>packages/messaging-api-line/src/LineClient.ts\<close>.
  A promise is modelled by the value it settles to: \<open>Some (Inr v)\<close> when it resolves
  with \<open>v\<close>, \<open>Some (Inl e)\<close> when it rejects with (or the method throws) \<open>e\<close>, and
  \<open>None\<close> when it stays pending because the network never answers.
\<close>

type_synonym Buffer = "8 word list"

text \<open>
  An axios response, \<^verbatim>\<open>{ data, status }\<close>. A response that rejects the promise carries
  the API's error body in \<open>data\<close>; \<open>None\<close> there is a body that JavaScript reads as falsy
  (absent or empty).
\<close>

record 'd axios_response =
  data :: 'd
  status :: nat

record detail =
  property :: string
  detail_message :: string

record error_data =
  message :: string
  details :: "detail list option"

text \<open>
  What a promise of this client rejects with. \<open>Failure\<close> is the error object of the
  transport (axios): its \<^verbatim>\<open>message\<close> and, when the server answered, its
  \<^verbatim>\<open>response\<close>. \<open>Invariant_Violation\<close> is the \<^verbatim>\<open>Error\<close> thrown by
  \<^verbatim>\<open>invariant(condition, message)\<close>.

  Modelled from the spec: \<open>AxiosError\<close> is the typed error of the package
  \<^verbatim>\<open>axios-error\<close>, which is not among the sources; it carries "both the formatted
  message and the original failure for inspection". Its \<^verbatim>\<open>response\<close> is the original
  failure's, as the not-found softening of the user profile lookup reads it from there.
\<close>

datatype error =
    Failure string "error_data option axios_response option"
  | AxiosError string error
  | Invariant_Violation string

fun error_message :: "error \<Rightarrow> string" where
  "error_message (Failure m r) = m"
| "error_message (AxiosError m e) = m"
| "error_message (Invariant_Violation m) = m"

fun error_response :: "error \<Rightarrow> error_data option axios_response option" where
  "error_response (Failure m r) = r"
| "error_response (AxiosError m e) = error_response e"
| "error_response (Invariant_Violation m) = None"

type_synonym 'a promise = "(error + 'a) option"

subsection \<open>\<^verbatim>\<open>handleError\<close>\<close>

text \<open>
  \<^verbatim>\<open>details.forEach(detail => { msg += `\n- ${detail.property}: ${detail.message}`; })\<close>
\<close>

definition append_detail :: "string \<Rightarrow> detail \<Rightarrow> string" where
  "append_detail msg d =
     msg @ [CHR 0x0A] @ ''- '' @ property d @ '': '' @ detail_message d"

text \<open>
  \<^verbatim>\<open>handleError(err): never\<close> always throws. \<open>handleError_thrown\<close> is the error it
  throws, \<^verbatim>\<open>new AxiosError(msg, err)\<close> or \<^verbatim>\<open>new AxiosError(err.message, err)\<close>;
  \<open>handleError\<close> returns it on the left, whatever result type the caller expects.
\<close>

definition handleError_thrown :: "error \<Rightarrow> error" where
  "handleError_thrown err =
     (case error_response err of
        None \<Rightarrow> AxiosError (error_message err) err
      | Some response \<Rightarrow>
          (case data response of
             None \<Rightarrow> AxiosError (error_message err) err
           | Some d \<Rightarrow>
               (let msg = ''LINE API - '' @ message d;
                    msg = (case details d of
                             None \<Rightarrow> msg
                           | Some ds \<Rightarrow> if length ds > 0 then foldl append_detail msg ds else msg)
                in AxiosError msg err)))"

definition handleError :: "error \<Rightarrow> error + 'a" where
  "handleError err = Inl (handleError_thrown err)"

section \<open>The client and the network\<close>

text \<open>
  \<^verbatim>\<open>SendTarget\<close> is a reply token, one recipient or a list of recipients; the casts
  \<^verbatim>\<open>target as UserId\<close>, \<^verbatim>\<open>target as UserId[]\<close>, \<^verbatim>\<open>target as ReplyToken\<close>
  leave the value as it is. Messages are built elsewhere and are opaque here (\<open>'j\<close>).
\<close>

datatype SendTarget = Single string | Multiple "string list"

datatype 'j field = Target SendTarget | Messages "'j list"

datatype 'j payload =
    No_Data
  | Null
  | Object "(string \<times> 'j field) list"
  | Json 'j
  | Binary Buffer

datatype http_method = GET | POST | PUT | DELETE

record request_config =
  config_headers :: "string \<rightharpoonup> string"
  config_responseType :: "string option"

record 'j request =
  req_method :: http_method
  req_baseURL :: string
  req_url :: string
  req_headers :: "string \<rightharpoonup> string"
  req_data :: "'j payload"
  req_responseType :: "string option"

record AxiosInstance =
  baseURL :: string
  headers :: "string \<rightharpoonup> string"

record 'f LineClient =
  priv_channelSecret :: "string option"
  priv_onRequest :: 'f
  priv_axios :: AxiosInstance
  priv_accessToken :: string

record 'f ClientConfig =
  config_accessToken :: string
  config_channelSecret :: string
  config_origin :: "string option"
  config_onRequest :: "'f option"

datatype 'f accessTokenOrConfig = Token string | Config "'f ClientConfig"

text \<open>The per-call options bag; only \<^verbatim>\<open>accessToken\<close> is read by the client.\<close>

record options =
  accessToken :: "string option"

text \<open>JavaScript truthiness of a \<^verbatim>\<open>string | undefined\<close>.\<close>

definition truthy :: "string option \<Rightarrow> bool" where
  "truthy v = (case v of None \<Rightarrow> False | Some str \<Rightarrow> str \<noteq> [])"

text \<open>
  The constructor. Its first argument here is \<^verbatim>\<open>onRequest\<close> of
  \<^verbatim>\<open>messaging-api-common\<close>, the default observer. The instance made by
  \<^verbatim>\<open>axios.create\<close> keeps the base URL and the default headers.
\<close>

definition new_LineClient ::
  "'f \<Rightarrow> 'f accessTokenOrConfig \<Rightarrow> string option \<Rightarrow> 'f LineClient" where
  "new_LineClient onRequest arg channelSecret =
     (let (token, secret, observer, origin) =
            (case arg of
               Config config \<Rightarrow>
                 (config_accessToken config, Some (config_channelSecret config),
                  (case config_onRequest config of None \<Rightarrow> onRequest | Some f \<Rightarrow> f),
                  config_origin config)
             | Token t \<Rightarrow> (t, channelSecret, onRequest, None))
      in \<lparr>priv_channelSecret = secret,
          priv_onRequest = observer,
          priv_axios =
            \<lparr>baseURL =
               (case origin of
                  None \<Rightarrow> ''https://api.line.me''
                | Some url \<Rightarrow> if url = [] then ''https://api.line.me'' else url) @ ''/'',
             headers = [''Authorization'' \<mapsto> ''Bearer '' @ token,
                        ''Content-Type'' \<mapsto> ''application/json'']\<rparr>,
          priv_accessToken = token\<rparr>)"

text \<open>
  The state an operation runs in: the client object \<open>this\<close>, the outcomes the network
  will give to the next requests, in order (\<open>Inl\<close> a rejection, \<open>Inr\<close> a response), and
  the requests issued so far. The request interceptor passes each request's description
  to \<^verbatim>\<open>_onRequest\<close> and returns the configuration unchanged, so the log holds what
  the transport sends.
\<close>

record ('d, 'j, 'f) state =
  this :: "'f LineClient"
  pending :: "(error + 'd axios_response) list"
  sent :: "'j request list"

text \<open>
  One call of the axios instance: the per-call configuration is merged over the
  instance's defaults (a per-call header wins), the request is issued, and the promise
  settles with the next outcome of the network.
\<close>

definition axios_request ::
  "http_method \<Rightarrow> string \<Rightarrow> 'j payload \<Rightarrow> request_config option \<Rightarrow> ('d, 'j, 'f) state \<Rightarrow>
     'd axios_response promise \<times> ('d, 'j, 'f) state" where
  "axios_request m url body config s =
     (let inst = priv_axios (this s);
          req = \<lparr>req_method = m, req_baseURL = baseURL inst, req_url = url,
                 req_headers =
                   headers inst ++ (case config of None \<Rightarrow> Map.empty | Some c \<Rightarrow> config_headers c),
                 req_data = body,
                 req_responseType =
                   (case config of None \<Rightarrow> None | Some c \<Rightarrow> config_responseType c)\<rparr>;
          s' = s\<lparr>sent := sent s @ [req]\<rparr>
      in case pending s of
           [] \<Rightarrow> (None, s')
         | r # rs \<Rightarrow> (Some r, s'\<lparr>pending := rs\<rparr>))"

definition axios_get where "axios_get url config = axios_request GET url No_Data config"
definition axios_delete where "axios_delete url config = axios_request DELETE url No_Data config"
definition axios_post where "axios_post url body config = axios_request POST url body config"
definition axios_put where "axios_put url body config = axios_request PUT url body config"

text \<open>\<^verbatim>\<open>promise.then(onFulfilled, onRejected)\<close>, \<^verbatim>\<open>promise.then(onFulfilled)\<close> and
  \<^verbatim>\<open>promise.catch(onRejected)\<close>; a callback that throws returns \<open>Inl\<close>.\<close>

definition then2 :: "('a \<Rightarrow> error + 'b) \<Rightarrow> (error \<Rightarrow> error + 'b) \<Rightarrow> 'a promise \<Rightarrow> 'b promise" where
  "then2 onFulfilled onRejected p =
     (case p of None \<Rightarrow> None
      | Some (Inr v) \<Rightarrow> Some (onFulfilled v)
      | Some (Inl e) \<Rightarrow> Some (onRejected e))"

definition then1 :: "('a \<Rightarrow> error + 'b) \<Rightarrow> 'a promise \<Rightarrow> 'b promise" where
  "then1 onFulfilled p =
     (case p of None \<Rightarrow> None
      | Some (Inr v) \<Rightarrow> Some (onFulfilled v)
      | Some (Inl e) \<Rightarrow> Some (Inl e))"

definition catch :: "(error \<Rightarrow> error + 'a) \<Rightarrow> 'a promise \<Rightarrow> 'a promise" where
  "catch onRejected p =
     (case p of None \<Rightarrow> None
      | Some (Inr v) \<Rightarrow> Some (Inr v)
      | Some (Inl e) \<Rightarrow> Some (onRejected e))"

text \<open>
  The configuration argument that most methods write:
  \<^verbatim>\<open>customAccessToken === undefined ? undefined
     : { headers: { Authorization: `Bearer ${customAccessToken}` } }\<close>
\<close>

definition bearer_config :: "string option \<Rightarrow> request_config option" where
  "bearer_config customAccessToken =
     (case customAccessToken of
        None \<Rightarrow> None
      | Some token \<Rightarrow>
          Some \<lparr>config_headers = [''Authorization'' \<mapsto> ''Bearer '' @ token],
                config_responseType = None\<rparr>)"

text \<open>\<^verbatim>\<open>.then(res => res.data, handleError)\<close>\<close>

definition data_or_handleError :: "'d axios_response promise \<Rightarrow> 'd promise" where
  "data_or_handleError p = then2 (\<lambda>res. Inr (data res)) handleError p"

text \<open>
  \<^verbatim>\<open>.catch(err => { if (err.response && err.response.status === 404) { return null; }
     return handleError(err); })\<close>; \<open>None\<close> is \<^verbatim>\<open>null\<close>.
\<close>

definition null_on_404 :: "error \<Rightarrow> error + 'a option" where
  "null_on_404 err =
     (if (case error_response err of None \<Rightarrow> False | Some response \<Rightarrow> status response = 404)
      then Inr None
      else handleError err)"

section \<open>The operations\<close>

subsection \<open>Reply, push and multicast\<close>

definition replyRawBody ::
  "(string \<times> 'j field) list \<Rightarrow> options \<Rightarrow> ('d, 'j, 'f) state \<Rightarrow>
     'd promise \<times> ('d, 'j, 'f) state" where
  "replyRawBody body opts s =
     (let customAccessToken = accessToken opts;
          (p, s') = axios_post ''/v2/bot/message/reply'' (Object body)
                      (bearer_config customAccessToken) s
      in (data_or_handleError p, s'))"

definition reply ::
  "SendTarget \<Rightarrow> 'j list \<Rightarrow> options \<Rightarrow> ('d, 'j, 'f) state \<Rightarrow>
     'd promise \<times> ('d, 'j, 'f) state" where
  "reply replyToken messages opts s =
     replyRawBody [(''replyToken'', Target replyToken), (''messages'', Messages messages)] opts s"

definition pushRawBody ::
  "(string \<times> 'j field) list \<Rightarrow> options \<Rightarrow> ('d, 'j, 'f) state \<Rightarrow>
     'd promise \<times> ('d, 'j, 'f) state" where
  "pushRawBody body opts s =
     (let customAccessToken = accessToken opts;
          (p, s') = axios_post ''/v2/bot/message/push'' (Object body)
                      (bearer_config customAccessToken) s
      in (data_or_handleError p, s'))"

definition push ::
  "SendTarget \<Rightarrow> 'j list \<Rightarrow> options \<Rightarrow> ('d, 'j, 'f) state \<Rightarrow>
     'd promise \<times> ('d, 'j, 'f) state" where
  "push to messages opts s =
     pushRawBody [(''to'', Target to), (''messages'', Messages messages)] opts s"

definition multicastRawBody ::
  "(string \<times> 'j field) list \<Rightarrow> options \<Rightarrow> ('d, 'j, 'f) state \<Rightarrow>
     'd promise \<times> ('d, 'j, 'f) state" where
  "multicastRawBody body opts s =
     (let customAccessToken = accessToken opts;
          (p, s') = axios_post ''/v2/bot/message/multicast'' (Object body)
                      (bearer_config customAccessToken) s
      in (data_or_handleError p, s'))"

definition multicast ::
  "SendTarget \<Rightarrow> 'j list \<Rightarrow> options \<Rightarrow> ('d, 'j, 'f) state \<Rightarrow>
     'd promise \<times> ('d, 'j, 'f) state" where
  "multicast to messages opts s =
     multicastRawBody [(''to'', Target to), (''messages'', Messages messages)] opts s"

text \<open>\<^verbatim>\<open>_send(type, target, messages, options)\<close>; the mode tag is a string at run time.\<close>

definition priv_send ::
  "string \<Rightarrow> SendTarget \<Rightarrow> 'j list \<Rightarrow> options \<Rightarrow> ('d, 'j, 'f) state \<Rightarrow>
     'd promise \<times> ('d, 'j, 'f) state" where
  "priv_send type target messages opts s =
     (if type = ''push'' then push target messages opts s
      else if type = ''multicast'' then multicast target messages opts s
      else reply target messages opts s)"

definition replyMessages ::
  "SendTarget \<Rightarrow> 'j list \<Rightarrow> options \<Rightarrow> ('d, 'j, 'f) state \<Rightarrow>
     'd promise \<times> ('d, 'j, 'f) state" where
  "replyMessages replyToken messages opts s = reply replyToken messages opts s"

definition pushMessages ::
  "SendTarget \<Rightarrow> 'j list \<Rightarrow> options \<Rightarrow> ('d, 'j, 'f) state \<Rightarrow>
     'd promise \<times> ('d, 'j, 'f) state" where
  "pushMessages to messages opts s = push to messages opts s"

definition multicastMessages ::
  "SendTarget \<Rightarrow> 'j list \<Rightarrow> options \<Rightarrow> ('d, 'j, 'f) state \<Rightarrow>
     'd promise \<times> ('d, 'j, 'f) state" where
  "multicastMessages to messages opts s = multicast to messages opts s"

subsection \<open>Content, profiles and members\<close>

text \<open>\<^verbatim>\<open>Buffer.from(res.data)\<close> copies the bytes of the response.\<close>

definition Buffer_from :: "Buffer \<Rightarrow> Buffer" where
  "Buffer_from bytes = bytes"

definition retrieveMessageContent ::
  "string \<Rightarrow> options \<Rightarrow> (Buffer, 'j, 'f) state \<Rightarrow> Buffer promise \<times> (Buffer, 'j, 'f) state" where
  "retrieveMessageContent messageId opts s =
     (let customAccessToken = accessToken opts;
          (p, s') = axios_get (''/v2/bot/message/'' @ messageId @ ''/content'')
                      (case customAccessToken of
                         None \<Rightarrow> None
                       | Some token \<Rightarrow>
                           Some \<lparr>config_headers = [''Authorization'' \<mapsto> ''Bearer '' @ token],
                                 config_responseType = Some ''arraybuffer''\<rparr>) s
      in (then2 (\<lambda>res. Inr (Buffer_from (data res))) handleError p, s'))"

definition getUserProfile ::
  "string \<Rightarrow> options \<Rightarrow> ('d, 'j, 'f) state \<Rightarrow>
     'd option promise \<times> ('d, 'j, 'f) state" where
  "getUserProfile userId opts s =
     (let customAccessToken = accessToken opts;
          (p, s') = axios_get (''/v2/bot/profile/'' @ userId) (bearer_config customAccessToken) s
      in (catch null_on_404 (then2 (\<lambda>res. Inr (Some (data res))) handleError p), s'))"

definition getGroupMemberProfile ::
  "string \<Rightarrow> string \<Rightarrow> options \<Rightarrow> ('d, 'j, 'f) state \<Rightarrow>
     'd promise \<times> ('d, 'j, 'f) state" where
  "getGroupMemberProfile groupId userId opts s =
     (let customAccessToken = accessToken opts;
          (p, s') = axios_get (''/v2/bot/group/'' @ groupId @ ''/member/'' @ userId)
                      (bearer_config customAccessToken) s
      in (data_or_handleError p, s'))"

definition getRoomMemberProfile ::
  "string \<Rightarrow> string \<Rightarrow> options \<Rightarrow> ('d, 'j, 'f) state \<Rightarrow>
     'd promise \<times> ('d, 'j, 'f) state" where
  "getRoomMemberProfile roomId userId opts s =
     (let customAccessToken = accessToken opts;
          (p, s') = axios_get (''/v2/bot/room/'' @ roomId @ ''/member/'' @ userId)
                      (bearer_config customAccessToken) s
      in (data_or_handleError p, s'))"

text \<open>A page of member IDs, \<^verbatim>\<open>{ memberIds: string[]; next?: string }\<close>.\<close>

record page =
  memberIds :: "string list"
  "next" :: "string option"

text \<open>\<^verbatim>\<open>start ? `?start=${start}` : ''\<close>: the empty string is falsy.\<close>

definition start_query :: "string option \<Rightarrow> string" where
  "start_query start =
     (case start of
        None \<Rightarrow> []
      | Some token \<Rightarrow> if token = [] then [] else ''?start='' @ token)"

definition getGroupMemberIds ::
  "string \<Rightarrow> string option \<Rightarrow> options \<Rightarrow> (page, 'j, 'f) state \<Rightarrow>
     page promise \<times> (page, 'j, 'f) state" where
  "getGroupMemberIds groupId start opts s =
     (let customAccessToken = accessToken opts;
          (p, s') = axios_get (''/v2/bot/group/'' @ groupId @ ''/members/ids'' @ start_query start)
                      (bearer_config customAccessToken) s
      in (data_or_handleError p, s'))"

definition getRoomMemberIds ::
  "string \<Rightarrow> string option \<Rightarrow> options \<Rightarrow> (page, 'j, 'f) state \<Rightarrow>
     page promise \<times> (page, 'j, 'f) state" where
  "getRoomMemberIds roomId start opts s =
     (let customAccessToken = accessToken opts;
          (p, s') = axios_get (''/v2/bot/room/'' @ roomId @ ''/members/ids'' @ start_query start)
                      (bearer_config customAccessToken) s
      in (data_or_handleError p, s'))"

definition leaveGroup ::
  "string \<Rightarrow> options \<Rightarrow> ('d, 'j, 'f) state \<Rightarrow>
     'd promise \<times> ('d, 'j, 'f) state" where
  "leaveGroup groupId opts s =
     (let customAccessToken = accessToken opts;
          (p, s') = axios_post (''/v2/bot/group/'' @ groupId @ ''/leave'') Null
                      (bearer_config customAccessToken) s
      in (data_or_handleError p, s'))"

definition leaveRoom ::
  "string \<Rightarrow> options \<Rightarrow> ('d, 'j, 'f) state \<Rightarrow>
     'd promise \<times> ('d, 'j, 'f) state" where
  "leaveRoom roomId opts s =
     (let customAccessToken = accessToken opts;
          (p, s') = axios_post (''/v2/bot/room/'' @ roomId @ ''/leave'') Null
                      (bearer_config customAccessToken) s
      in (data_or_handleError p, s'))"

subsection \<open>All member IDs of a group or room\<close>

lemma axios_request_pending:
  "axios_request m url body config s = (Some r, s') \<Longrightarrow> length (pending s') < length (pending s)"
  by (auto simp: axios_request_def Let_def split: list.splits)

lemma getGroupMemberIds_pending:
  "getGroupMemberIds groupId start opts s = (Some r, s') \<Longrightarrow>
     length (pending s') < length (pending s)"
  by (auto simp: getGroupMemberIds_def data_or_handleError_def then2_def axios_get_def Let_def
      split: prod.splits option.splits sum.splits dest: axios_request_pending)

lemma getRoomMemberIds_pending:
  "getRoomMemberIds roomId start opts s = (Some r, s') \<Longrightarrow>
     length (pending s') < length (pending s)"
  by (auto simp: getRoomMemberIds_def data_or_handleError_def then2_def axios_get_def Let_def
      split: prod.splits option.splits sum.splits dest: axios_request_pending)

text \<open>
  The \<^verbatim>\<open>do { ... } while (continuationToken)\<close> loop of \<^verbatim>\<open>getAllGroupMemberIds\<close>:
  one iteration awaits a page; a rejected fetch rejects the whole call. Every iteration
  takes one outcome from the network, so the recursion ends.
\<close>

function getAllGroupMemberIds_loop ::
  "string \<Rightarrow> options \<Rightarrow> string list \<Rightarrow> string option \<Rightarrow> (page, 'j, 'f) state \<Rightarrow>
     string list promise \<times> (page, 'j, 'f) state" where
  "getAllGroupMemberIds_loop groupId opts allMemberIds continuationToken s =
     (case getGroupMemberIds groupId continuationToken opts s of
        (None, s') \<Rightarrow> (None, s')
      | (Some (Inl err), s') \<Rightarrow> (Some (Inl err), s')
      | (Some (Inr page), s') \<Rightarrow>
          (let allMemberIds = allMemberIds @ memberIds page;
               continuationToken = next page
           in if truthy continuationToken
              then getAllGroupMemberIds_loop groupId opts allMemberIds continuationToken s'
              else (Some (Inr allMemberIds), s')))"
  by pat_completeness auto
termination
  by (relation "measure (\<lambda>(groupId, opts, allMemberIds, continuationToken, s). length (pending s))")
     (auto dest: getGroupMemberIds_pending [OF sym])

declare getAllGroupMemberIds_loop.simps [simp del]

definition getAllGroupMemberIds ::
  "string \<Rightarrow> options \<Rightarrow> (page, 'j, 'f) state \<Rightarrow> string list promise \<times> (page, 'j, 'f) state" where
  "getAllGroupMemberIds groupId opts s = getAllGroupMemberIds_loop groupId opts [] None s"

function getAllRoomMemberIds_loop ::
  "string \<Rightarrow> options \<Rightarrow> string list \<Rightarrow> string option \<Rightarrow> (page, 'j, 'f) state \<Rightarrow>
     string list promise \<times> (page, 'j, 'f) state" where
  "getAllRoomMemberIds_loop roomId opts allMemberIds continuationToken s =
     (case getRoomMemberIds roomId continuationToken opts s of
        (None, s') \<Rightarrow> (None, s')
      | (Some (Inl err), s') \<Rightarrow> (Some (Inl err), s')
      | (Some (Inr page), s') \<Rightarrow>
          (let allMemberIds = allMemberIds @ memberIds page;
               continuationToken = next page
           in if truthy continuationToken
              then getAllRoomMemberIds_loop roomId opts allMemberIds continuationToken s'
              else (Some (Inr allMemberIds), s')))"
  by pat_completeness auto
termination
  by (relation "measure (\<lambda>(roomId, opts, allMemberIds, continuationToken, s). length (pending s))")
     (auto dest: getRoomMemberIds_pending [OF sym])

declare getAllRoomMemberIds_loop.simps [simp del]

definition getAllRoomMemberIds ::
  "string \<Rightarrow> options \<Rightarrow> (page, 'j, 'f) state \<Rightarrow> string list promise \<times> (page, 'j, 'f) state" where
  "getAllRoomMemberIds roomId opts s = getAllRoomMemberIds_loop roomId opts [] None s"

subsection \<open>Rich menus\<close>

record 'r richmenus_data =
  richmenus :: 'r

definition getRichMenuList ::
  "options \<Rightarrow> ('r richmenus_data, 'j, 'f) state \<Rightarrow>
     'r promise \<times> ('r richmenus_data, 'j, 'f) state" where
  "getRichMenuList opts s =
     (let customAccessToken = accessToken opts;
          (p, s') = axios_get ''/v2/bot/richmenu/list'' (bearer_config customAccessToken) s
      in (then2 (\<lambda>res. Inr (richmenus (data res))) handleError p, s'))"

text \<open>\<^verbatim>\<open>.then(res => res.data).catch(err => ...)\<close>\<close>

definition data_or_null_on_404 :: "'d axios_response promise \<Rightarrow> 'd option promise" where
  "data_or_null_on_404 p = catch null_on_404 (then1 (\<lambda>res. Inr (Some (data res))) p)"

definition getRichMenu ::
  "string \<Rightarrow> options \<Rightarrow> ('d, 'j, 'f) state \<Rightarrow>
     'd option promise \<times> ('d, 'j, 'f) state" where
  "getRichMenu richMenuId opts s =
     (let customAccessToken = accessToken opts;
          (p, s') = axios_get (''/v2/bot/richmenu/'' @ richMenuId)
                      (bearer_config customAccessToken) s
      in (data_or_null_on_404 p, s'))"

definition createRichMenu ::
  "'j \<Rightarrow> options \<Rightarrow> ('d, 'j, 'f) state \<Rightarrow>
     'd promise \<times> ('d, 'j, 'f) state" where
  "createRichMenu richMenu opts s =
     (let customAccessToken = accessToken opts;
          (p, s') = axios_post ''/v2/bot/richmenu'' (Json richMenu)
                      (bearer_config customAccessToken) s
      in (data_or_handleError p, s'))"

definition deleteRichMenu ::
  "string \<Rightarrow> options \<Rightarrow> ('d, 'j, 'f) state \<Rightarrow>
     'd promise \<times> ('d, 'j, 'f) state" where
  "deleteRichMenu richMenuId opts s =
     (let customAccessToken = accessToken opts;
          (p, s') = axios_delete (''/v2/bot/richmenu/'' @ richMenuId)
                      (bearer_config customAccessToken) s
      in (data_or_handleError p, s'))"

definition getLinkedRichMenu ::
  "string \<Rightarrow> options \<Rightarrow> ('d, 'j, 'f) state \<Rightarrow>
     'd option promise \<times> ('d, 'j, 'f) state" where
  "getLinkedRichMenu userId opts s =
     (let customAccessToken = accessToken opts;
          (p, s') = axios_get (''/v2/bot/user/'' @ userId @ ''/richmenu'')
                      (bearer_config customAccessToken) s
      in (data_or_null_on_404 p, s'))"

definition linkRichMenu ::
  "string \<Rightarrow> string \<Rightarrow> options \<Rightarrow> ('d, 'j, 'f) state \<Rightarrow>
     'd promise \<times> ('d, 'j, 'f) state" where
  "linkRichMenu userId richMenuId opts s =
     (let customAccessToken = accessToken opts;
          (p, s') = axios_post (''/v2/bot/user/'' @ userId @ ''/richmenu/'' @ richMenuId) Null
                      (bearer_config customAccessToken) s
      in (data_or_handleError p, s'))"

definition unlinkRichMenu ::
  "string \<Rightarrow> options \<Rightarrow> ('d, 'j, 'f) state \<Rightarrow>
     'd promise \<times> ('d, 'j, 'f) state" where
  "unlinkRichMenu userId opts s =
     (let customAccessToken = accessToken opts;
          (p, s') = axios_delete (''/v2/bot/user/'' @ userId @ ''/richmenu'')
                      (bearer_config customAccessToken) s
      in (data_or_handleError p, s'))"

definition getDefaultRichMenu ::
  "options \<Rightarrow> ('d, 'j, 'f) state \<Rightarrow>
     'd option promise \<times> ('d, 'j, 'f) state" where
  "getDefaultRichMenu opts s =
     (let customAccessToken = accessToken opts;
          (p, s') = axios_get ''/v2/bot/user/all/richmenu'' (bearer_config customAccessToken) s
      in (data_or_null_on_404 p, s'))"

definition setDefaultRichMenu ::
  "string \<Rightarrow> options \<Rightarrow> ('d, 'j, 'f) state \<Rightarrow>
     'd promise \<times> ('d, 'j, 'f) state" where
  "setDefaultRichMenu richMenuId opts s =
     (let customAccessToken = accessToken opts;
          (p, s') = axios_post (''/v2/bot/user/all/richmenu/'' @ richMenuId) Null
                      (bearer_config customAccessToken) s
      in (data_or_handleError p, s'))"

definition deleteDefaultRichMenu ::
  "options \<Rightarrow> ('d, 'j, 'f) state \<Rightarrow>
     'd promise \<times> ('d, 'j, 'f) state" where
  "deleteDefaultRichMenu opts s =
     (let customAccessToken = accessToken opts;
          (p, s') = axios_delete ''/v2/bot/user/all/richmenu'' (bearer_config customAccessToken) s
      in (data_or_handleError p, s'))"

text \<open>
  \<^verbatim>\<open>imageType(image)\<close> of the package \<^verbatim>\<open>image-type\<close> gives \<^verbatim>\<open>{ ext, mime }\<close>
  or \<^verbatim>\<open>null\<close>; the detection is a parameter of the model.
  \<^verbatim>\<open>...(customAccessToken && { Authorization: `Bearer ${customAccessToken}` })\<close> adds
  the header when the token is truthy.
\<close>

record image_type =
  ext :: string
  mime :: string

definition spread_authorization :: "string option \<Rightarrow> (string \<rightharpoonup> string)" where
  "spread_authorization customAccessToken =
     (case customAccessToken of
        None \<Rightarrow> Map.empty
      | Some token \<Rightarrow>
          if token = [] then Map.empty else [''Authorization'' \<mapsto> ''Bearer '' @ token])"

definition uploadRichMenuImage ::
  "(Buffer \<Rightarrow> image_type option) \<Rightarrow> string \<Rightarrow> Buffer \<Rightarrow> options \<Rightarrow> ('d, 'j, 'f) state \<Rightarrow>
     'd promise \<times> ('d, 'j, 'f) state" where
  "uploadRichMenuImage imageType richMenuId image_buffer opts s =
     (let customAccessToken = accessToken opts in
      case imageType image_buffer of
        None \<Rightarrow> (Some (Inl (Invariant_Violation ''Image must be `image/jpeg` or `image/png`'')), s)
      | Some type \<Rightarrow>
          if mime type = ''image/jpeg'' \<or> mime type = ''image/png'' then
            (let (p, s') = axios_post (''/v2/bot/richmenu/'' @ richMenuId @ ''/content'') (Binary image_buffer)
                             (Some \<lparr>config_headers =
                                      [''Content-Type'' \<mapsto> mime type]
                                        ++ spread_authorization customAccessToken,
                                    config_responseType = None\<rparr>) s
             in (data_or_handleError p, s'))
          else (Some (Inl (Invariant_Violation ''Image must be `image/jpeg` or `image/png`'')), s))"

definition downloadRichMenuImage ::
  "string \<Rightarrow> options \<Rightarrow> (Buffer, 'j, 'f) state \<Rightarrow>
     Buffer option promise \<times> (Buffer, 'j, 'f) state" where
  "downloadRichMenuImage richMenuId opts s =
     (let customAccessToken = accessToken opts;
          (p, s') = axios_get (''/v2/bot/richmenu/'' @ richMenuId @ ''/content'')
                      (Some \<lparr>config_headers = spread_authorization customAccessToken,
                             config_responseType = Some ''arraybuffer''\<rparr>) s
      in (catch null_on_404 (then1 (\<lambda>res. Inr (Some (Buffer_from (data res)))) p), s'))"

subsection \<open>Account link and LIFF\<close>

definition issueLinkToken ::
  "string \<Rightarrow> options \<Rightarrow> ('d, 'j, 'f) state \<Rightarrow>
     'd promise \<times> ('d, 'j, 'f) state" where
  "issueLinkToken userId opts s =
     (let customAccessToken = accessToken opts;
          (p, s') = axios_post (''/v2/bot/user/'' @ userId @ ''/linkToken'') Null
                      (bearer_config customAccessToken) s
      in (data_or_handleError p, s'))"

record 'a apps_data =
  apps :: 'a

definition getLiffAppList ::
  "options \<Rightarrow> ('a apps_data, 'j, 'f) state \<Rightarrow> 'a promise \<times> ('a apps_data, 'j, 'f) state" where
  "getLiffAppList opts s =
     (let customAccessToken = accessToken opts;
          (p, s') = axios_get ''/liff/v1/apps'' (bearer_config customAccessToken) s
      in (then2 (\<lambda>res. Inr (apps (data res))) handleError p, s'))"

definition createLiffApp ::
  "'j \<Rightarrow> options \<Rightarrow> ('d, 'j, 'f) state \<Rightarrow>
     'd promise \<times> ('d, 'j, 'f) state" where
  "createLiffApp view opts s =
     (let customAccessToken = accessToken opts;
          (p, s') = axios_post ''/liff/v1/apps'' (Json view) (bearer_config customAccessToken) s
      in (data_or_handleError p, s'))"

definition updateLiffApp ::
  "string \<Rightarrow> 'j \<Rightarrow> options \<Rightarrow> ('d, 'j, 'f) state \<Rightarrow>
     'd promise \<times> ('d, 'j, 'f) state" where
  "updateLiffApp liffId view opts s =
     (let customAccessToken = accessToken opts;
          (p, s') = axios_put (''/liff/v1/apps/'' @ liffId @ ''/view'') (Json view)
                      (bearer_config customAccessToken) s
      in (data_or_handleError p, s'))"

definition deleteLiffApp ::
  "string \<Rightarrow> options \<Rightarrow> ('d, 'j, 'f) state \<Rightarrow>
     'd promise \<times> ('d, 'j, 'f) state" where
  "deleteLiffApp liffId opts s =
     (let customAccessToken = accessToken opts;
          (p, s') = axios_delete (''/liff/v1/apps/'' @ liffId) (bearer_config customAccessToken) s
      in (data_or_handleError p, s'))"

section \<open>Properties of the operations\<close>

text \<open>
  The accumulator as the specification words it, over the pages the fetcher returns in
  order: append the page's member IDs and go on with the page's cursor; "terminate when
  next is undefined/absent". \<open>None\<close> when the pages run out before such a page.
\<close>

fun spec_collectAll :: "page list \<Rightarrow> string list option" where
  "spec_collectAll [] = None"
| "spec_collectAll (p # ps) =
     (case next p of
        None \<Rightarrow> Some (memberIds p)
      | Some cursor \<Rightarrow> map_option (\<lambda>ids. memberIds p @ ids) (spec_collectAll ps))"

text \<open>
  What an operation settles to when the network rejects its request with a failure whose
  response has status 404: \<^verbatim>\<open>null\<close>, or the normalised error.
\<close>

definition softens_404 ::
  "(('d, 'j, 'f) state \<Rightarrow> 'a option promise \<times> ('d, 'j, 'f) state) \<Rightarrow> bool" where
  "softens_404 operation \<longleftrightarrow>
     (\<forall>s err response rest.
        pending s = Inl err # rest \<and> error_response err = Some response \<and> status response = 404
          \<longrightarrow> fst (operation s) = Some (Inr None))"

definition raises_on_404 ::
  "(('d, 'j, 'f) state \<Rightarrow> 'a promise \<times> ('d, 'j, 'f) state) \<Rightarrow> bool" where
  "raises_on_404 operation \<longleftrightarrow>
     (\<forall>s err response rest.
        pending s = Inl err # rest \<and> error_response err = Some response \<and> status response = 404
          \<longrightarrow> fst (operation s) = Some (Inl (handleError_thrown err)))"

text \<open>An operation keeps the configuration when the client object is the same after it.\<close>

definition keeps_configuration ::
  "(('d, 'j, 'f) state \<Rightarrow> 'a \<times> ('d, 'j, 'f) state) \<Rightarrow> bool" where
  "keeps_configuration operation \<longleftrightarrow> (\<forall>s. this (snd (operation s)) = this s)"

text \<open>
  A method resolves the credential as the specification says when, on a client whose
  default header is \<open>Bearer <default>\<close>, its one request carries \<open>Bearer <override>\<close>
  for every override that is present and \<open>Bearer <default>\<close> otherwise. All methods
  that issue one request do so, but for the image upload and download.
\<close>

definition resolves_credential ::
  "(options \<Rightarrow> ('d, 'j, 'f) state \<Rightarrow> 'a \<times> ('d, 'j, 'f) state) \<Rightarrow> bool" where
  "resolves_credential method \<longleftrightarrow>
     (\<forall>opts s default_token.
        headers (priv_axios (this s)) ''Authorization'' = Some (''Bearer '' @ default_token) \<longrightarrow>
        (\<exists>req. sent (snd (method opts s)) = sent s @ [req] \<and>
           req_headers req ''Authorization'' =
             Some (''Bearer '' @
               (case accessToken opts of None \<Rightarrow> default_token | Some token \<Rightarrow> token))))"

section \<open>Error normalisation\<close>

lemma foldl_append_detail:
  "foldl append_detail msg ds =
     msg @ concat (map (\<lambda>d. [CHR 0x0A] @ ''- '' @ property d @ '': '' @ detail_message d) ds)"
  by (induction ds arbitrary: msg) (simp_all add: append_detail_def)

text \<open>
  Claim C5. A failure whose response carries a structured body with a top-level message
  and a list of details is raised as a typed error whose message is
  \<open>LINE API - <message>\<close> followed, for each detail in order, by a line
  \<open>- <property>: <message>\<close>; the typed error carries the original failure. For the body
  \<open>{message: "The request body has 1 error(s)", details: [{property: "messages[0].type",
  message: "may not be null"}]}\<close> the message is
  \<open>LINE API - The request body has 1 error(s)\n- messages[0].type: may not be null\<close>
  (the witness).
\<close>

theorem handleError_formats_details:
  assumes "error_response err = Some response"
    and "data response = Some body"
    and "details body = Some ds"
  shows "(handleError err :: error + 'a) =
     Inl (AxiosError
       (''LINE API - '' @ message body @
          concat (map (\<lambda>d. [CHR 0x0A] @ ''- '' @ property d @ '': '' @ detail_message d) ds))
       err)"
  using assms by (simp add: handleError_def handleError_thrown_def Let_def foldl_append_detail)

theorem handleError_formats_details_witness:
  "(handleError (Failure ''Request failed with status code 400''
      (Some \<lparr>data = Some \<lparr>message = ''The request body has 1 error(s)'',
         details = Some [\<lparr>property = ''messages[0].type'',
           detail_message = ''may not be null''\<rparr>]\<rparr>, status = 400\<rparr>)) :: error + unit) =
    Inl (AxiosError
      (''LINE API - The request body has 1 error(s)'' @ [CHR 0x0A] @
         ''- messages[0].type: may not be null'')
      (Failure ''Request failed with status code 400''
        (Some \<lparr>data = Some \<lparr>message = ''The request body has 1 error(s)'',
           details = Some [\<lparr>property = ''messages[0].type'',
             detail_message = ''may not be null''\<rparr>]\<rparr>, status = 400\<rparr>)))"
  using handleError_formats_details
    [of "Failure ''Request failed with status code 400''
          (Some \<lparr>data = Some \<lparr>message = ''The request body has 1 error(s)'',
             details = Some [\<lparr>property = ''messages[0].type'',
               detail_message = ''may not be null''\<rparr>]\<rparr>, status = 400\<rparr>)"
        "\<lparr>data = Some \<lparr>message = ''The request body has 1 error(s)'',
             details = Some [\<lparr>property = ''messages[0].type'',
               detail_message = ''may not be null''\<rparr>]\<rparr>, status = 400\<rparr>"
        "\<lparr>message = ''The request body has 1 error(s)'',
             details = Some [\<lparr>property = ''messages[0].type'',
               detail_message = ''may not be null''\<rparr>]\<rparr>"
        "[\<lparr>property = ''messages[0].type'', detail_message = ''may not be null''\<rparr>]"]
  by simp

text \<open>
  Claim C6. A failure with no structured body (no response at all, or a response whose
  body is absent) is raised as a typed error whose message is the failure's own message
  and which carries the original failure; the normaliser never returns normally.
\<close>

theorem handleError_transport_failure:
  assumes "error_response err = None \<or>
           (\<exists>response. error_response err = Some response \<and> data response = None)"
  shows "(handleError err :: error + 'a) = Inl (AxiosError (error_message err) err)
       \<and> (\<forall>v. (handleError err :: error + 'a) \<noteq> Inr v)"
  using assms by (auto simp: handleError_def handleError_thrown_def)

theorem handleError_transport_failure_witness:
  "error_response (Failure ''getaddrinfo ENOTFOUND api.line.me'' None) = None
   \<and> (handleError (Failure ''getaddrinfo ENOTFOUND api.line.me'' None) :: error + unit) =
       Inl (AxiosError ''getaddrinfo ENOTFOUND api.line.me''
              (Failure ''getaddrinfo ENOTFOUND api.line.me'' None))
   \<and> (\<forall>v. (handleError (Failure ''getaddrinfo ENOTFOUND api.line.me'' None) :: error + unit)
          \<noteq> Inr v)"
  using handleError_transport_failure
    [where 'a = unit and err = "Failure ''getaddrinfo ENOTFOUND api.line.me'' None"]
  by simp

section \<open>One request of the transport\<close>

lemma axios_request_Cons:
  "pending s = r # rs \<Longrightarrow>
   axios_request m url body config s =
     (Some r,
      s\<lparr>sent := sent s @
           [\<lparr>req_method = m, req_baseURL = baseURL (priv_axios (this s)), req_url = url,
             req_headers = headers (priv_axios (this s)) ++
               (case config of None \<Rightarrow> Map.empty | Some c \<Rightarrow> config_headers c),
             req_data = body,
             req_responseType = (case config of None \<Rightarrow> None | Some c \<Rightarrow> config_responseType c)\<rparr>],
         pending := rs\<rparr>)"
  by (simp add: axios_request_def Let_def)

lemma axios_request_this: "this (snd (axios_request m url body config s)) = this s"
  by (simp add: axios_request_def Let_def split: list.split)

lemma axios_request_fst:
  "fst (axios_request m url body config s) = (case pending s of [] \<Rightarrow> None | r # rs \<Rightarrow> Some r)"
  by (simp add: axios_request_def Let_def split: list.split)

lemma axios_request_sent:
  "sent (snd (axios_request m url body config s)) =
     sent s @
       [\<lparr>req_method = m, req_baseURL = baseURL (priv_axios (this s)), req_url = url,
         req_headers = headers (priv_axios (this s)) ++
           (case config of None \<Rightarrow> Map.empty | Some c \<Rightarrow> config_headers c),
         req_data = body,
         req_responseType = (case config of None \<Rightarrow> None | Some c \<Rightarrow> config_responseType c)\<rparr>]"
  by (simp add: axios_request_def Let_def split: list.split)

lemmas axios_verb_defs = axios_get_def axios_post_def axios_put_def axios_delete_def

lemmas promise_defs = data_or_handleError_def data_or_null_on_404_def then1_def then2_def catch_def

lemmas send_defs =
  priv_send_def reply_def push_def multicast_def replyMessages_def pushMessages_def
  multicastMessages_def replyRawBody_def pushRawBody_def multicastRawBody_def

section \<open>The unified dispatcher\<close>

text \<open>
  Claim C1. For each of the modes reply, push and multicast and every message list,
  \<open>_send\<close> issues exactly one request: a POST to the endpoint of the mode
  (\<open>/v2/bot/message/reply\<close>, \<open>/v2/bot/message/push\<close>, \<open>/v2/bot/message/multicast\<close>)
  whose body is \<open>{replyToken, messages}\<close>, \<open>{to, messages}\<close> and \<open>{to, messages}\<close>
  respectively, with the target as given and the message list unchanged.
\<close>

theorem priv_send_dispatch:
  "sent (snd (priv_send ''reply'' target messages opts s)) =
     sent s @
       [\<lparr>req_method = POST, req_baseURL = baseURL (priv_axios (this s)),
         req_url = ''/v2/bot/message/reply'',
         req_headers = headers (priv_axios (this s)) ++
           (case accessToken opts of None \<Rightarrow> Map.empty
            | Some token \<Rightarrow> [''Authorization'' \<mapsto> ''Bearer '' @ token]),
         req_data = Object [(''replyToken'', Target target), (''messages'', Messages messages)],
         req_responseType = None\<rparr>]
   \<and> sent (snd (priv_send ''push'' target messages opts s)) =
     sent s @
       [\<lparr>req_method = POST, req_baseURL = baseURL (priv_axios (this s)),
         req_url = ''/v2/bot/message/push'',
         req_headers = headers (priv_axios (this s)) ++
           (case accessToken opts of None \<Rightarrow> Map.empty
            | Some token \<Rightarrow> [''Authorization'' \<mapsto> ''Bearer '' @ token]),
         req_data = Object [(''to'', Target target), (''messages'', Messages messages)],
         req_responseType = None\<rparr>]
   \<and> sent (snd (priv_send ''multicast'' (Multiple userIds) messages opts s)) =
     sent s @
       [\<lparr>req_method = POST, req_baseURL = baseURL (priv_axios (this s)),
         req_url = ''/v2/bot/message/multicast'',
         req_headers = headers (priv_axios (this s)) ++
           (case accessToken opts of None \<Rightarrow> Map.empty
            | Some token \<Rightarrow> [''Authorization'' \<mapsto> ''Bearer '' @ token]),
         req_data = Object [(''to'', Target (Multiple userIds)), (''messages'', Messages messages)],
         req_responseType = None\<rparr>]"
proof (intro conjI)
  show "sent (snd (priv_send ''reply'' target messages opts s)) =
     sent s @
       [\<lparr>req_method = POST, req_baseURL = baseURL (priv_axios (this s)),
         req_url = ''/v2/bot/message/reply'',
         req_headers = headers (priv_axios (this s)) ++
           (case accessToken opts of None \<Rightarrow> Map.empty
            | Some token \<Rightarrow> [''Authorization'' \<mapsto> ''Bearer '' @ token]),
         req_data = Object [(''replyToken'', Target target), (''messages'', Messages messages)],
         req_responseType = None\<rparr>]"
    by (simp add: send_defs axios_verb_defs axios_request_sent bearer_config_def Let_def
        split_beta split: option.split)
  show "sent (snd (priv_send ''push'' target messages opts s)) =
     sent s @
       [\<lparr>req_method = POST, req_baseURL = baseURL (priv_axios (this s)),
         req_url = ''/v2/bot/message/push'',
         req_headers = headers (priv_axios (this s)) ++
           (case accessToken opts of None \<Rightarrow> Map.empty
            | Some token \<Rightarrow> [''Authorization'' \<mapsto> ''Bearer '' @ token]),
         req_data = Object [(''to'', Target target), (''messages'', Messages messages)],
         req_responseType = None\<rparr>]"
    by (simp add: send_defs axios_verb_defs axios_request_sent bearer_config_def Let_def
        split_beta split: option.split)
  show "sent (snd (priv_send ''multicast'' (Multiple userIds) messages opts s)) =
     sent s @
       [\<lparr>req_method = POST, req_baseURL = baseURL (priv_axios (this s)),
         req_url = ''/v2/bot/message/multicast'',
         req_headers = headers (priv_axios (this s)) ++
           (case accessToken opts of None \<Rightarrow> Map.empty
            | Some token \<Rightarrow> [''Authorization'' \<mapsto> ''Bearer '' @ token]),
         req_data = Object [(''to'', Target (Multiple userIds)), (''messages'', Messages messages)],
         req_responseType = None\<rparr>]"
    by (simp add: send_defs axios_verb_defs axios_request_sent bearer_config_def Let_def
        split_beta split: option.split)
qed

text \<open>
  Claim C10. A mode tag that is neither \<open>push\<close> nor \<open>multicast\<close>, whatever string it
  is, takes the reply branch: the target is sent as the reply token to
  \<open>/v2/bot/message/reply\<close>; the tag is not rejected.
\<close>

theorem priv_send_falls_through_to_reply:
  assumes "type \<noteq> ''push''" and "type \<noteq> ''multicast''"
  shows "priv_send type target messages opts s = reply target messages opts s
       \<and> sent (snd (priv_send type target messages opts s)) =
           sent s @
             [\<lparr>req_method = POST, req_baseURL = baseURL (priv_axios (this s)),
               req_url = ''/v2/bot/message/reply'',
               req_headers = headers (priv_axios (this s)) ++
                 (case accessToken opts of None \<Rightarrow> Map.empty
                  | Some token \<Rightarrow> [''Authorization'' \<mapsto> ''Bearer '' @ token]),
               req_data = Object [(''replyToken'', Target target), (''messages'', Messages messages)],
               req_responseType = None\<rparr>]"
  using assms
  by (simp add: send_defs axios_verb_defs axios_request_sent bearer_config_def Let_def
      split_beta split: option.split)

theorem priv_send_falls_through_to_reply_witness:
  "''replyy'' \<noteq> ''push'' \<and> ''replyy'' \<noteq> ''multicast''
   \<and> map (\<lambda>r. (req_method r, req_url r, req_data r))
       (sent (snd (priv_send ''replyy'' (Single ''U1'') [''hello''] \<lparr>accessToken = None\<rparr>
          \<lparr>this = new_LineClient () (Token ''T'') None,
           pending = ([] :: (error + unit axios_response) list), sent = []\<rparr>))) =
     [(POST, ''/v2/bot/message/reply'',
       Object [(''replyToken'', Target (Single ''U1'')), (''messages'', Messages [''hello''])])]"
  using priv_send_falls_through_to_reply
    [of "''replyy''" "Single ''U1''" "[''hello'']" "\<lparr>accessToken = None\<rparr>"
        "\<lparr>this = new_LineClient () (Token ''T'') None,
          pending = ([] :: (error + unit axios_response) list), sent = []\<rparr>",
     THEN conjunct2]
  by simp

section \<open>Accumulating the pages of member IDs\<close>

lemma getGroupMemberIds_resolved:
  "pending s = Inr res # rs \<Longrightarrow>
   getGroupMemberIds groupId cursor opts s =
     (Some (Inr (data res)),
      s\<lparr>sent := sent s @
           [\<lparr>req_method = GET, req_baseURL = baseURL (priv_axios (this s)),
             req_url = ''/v2/bot/group/'' @ groupId @ ''/members/ids'' @ start_query cursor,
             req_headers = headers (priv_axios (this s)) ++
               (case bearer_config (accessToken opts) of None \<Rightarrow> Map.empty
                | Some c \<Rightarrow> config_headers c),
             req_data = No_Data,
             req_responseType = (case bearer_config (accessToken opts) of None \<Rightarrow> None
                | Some c \<Rightarrow> config_responseType c)\<rparr>],
         pending := rs\<rparr>)"
  by (simp add: getGroupMemberIds_def axios_get_def axios_request_Cons Let_def
      data_or_handleError_def then2_def)

lemma getGroupMemberIds_rejected:
  "pending s = Inl err # rs \<Longrightarrow>
   getGroupMemberIds groupId cursor opts s =
     (Some (Inl (handleError_thrown err)),
      s\<lparr>sent := sent s @
           [\<lparr>req_method = GET, req_baseURL = baseURL (priv_axios (this s)),
             req_url = ''/v2/bot/group/'' @ groupId @ ''/members/ids'' @ start_query cursor,
             req_headers = headers (priv_axios (this s)) ++
               (case bearer_config (accessToken opts) of None \<Rightarrow> Map.empty
                | Some c \<Rightarrow> config_headers c),
             req_data = No_Data,
             req_responseType = (case bearer_config (accessToken opts) of None \<Rightarrow> None
                | Some c \<Rightarrow> config_responseType c)\<rparr>],
         pending := rs\<rparr>)"
  by (simp add: getGroupMemberIds_def axios_get_def axios_request_Cons Let_def
      data_or_handleError_def then2_def handleError_def)

text \<open>
  The loop on a run of pages: every page but the last names a next cursor that is
  truthy, the last one does not. The accumulator and the cursor are generalised.
\<close>

lemma group_loop_pages:
  assumes "rs \<noteq> []"
    and "\<forall>r \<in> set (butlast rs). truthy (next (data r))"
    and "\<not> truthy (next (data (last rs)))"
    and "pending s = map Inr rs @ rest"
  shows "fst (getAllGroupMemberIds_loop groupId opts acc cursor s) =
           Some (Inr (acc @ concat (map (\<lambda>r. memberIds (data r)) rs)))
       \<and> pending (snd (getAllGroupMemberIds_loop groupId opts acc cursor s)) = rest
       \<and> this (snd (getAllGroupMemberIds_loop groupId opts acc cursor s)) = this s
       \<and> map (\<lambda>q. (req_method q, req_url q))
           (sent (snd (getAllGroupMemberIds_loop groupId opts acc cursor s))) =
           map (\<lambda>q. (req_method q, req_url q)) (sent s) @
           map (\<lambda>c. (GET, ''/v2/bot/group/'' @ groupId @ ''/members/ids'' @ start_query c))
             (cursor # map (\<lambda>r. next (data r)) (butlast rs))"
  using assms
proof (induction rs arbitrary: acc cursor s)
  case Nil
  then show ?case by simp
next
  case (Cons r rs)
  have step: "pending s = Inr r # (map Inr rs @ rest)"
    using Cons.prems(4) by simp
  show ?case
  proof (cases "rs = []")
    case True
    with Cons.prems have "\<not> truthy (next (data r))" by simp
    with True show ?thesis
      by (subst (1 2 3 4) getAllGroupMemberIds_loop.simps)
         (simp add: getGroupMemberIds_resolved [OF step] Let_def)
  next
    case False
    with Cons.prems have t: "truthy (next (data r))" by simp
    let ?s1 = "s\<lparr>sent := sent s @
           [\<lparr>req_method = GET, req_baseURL = baseURL (priv_axios (this s)),
             req_url = ''/v2/bot/group/'' @ groupId @ ''/members/ids'' @ start_query cursor,
             req_headers = headers (priv_axios (this s)) ++
               (case bearer_config (accessToken opts) of None \<Rightarrow> Map.empty
                | Some c \<Rightarrow> config_headers c),
             req_data = No_Data,
             req_responseType = (case bearer_config (accessToken opts) of None \<Rightarrow> None
                | Some c \<Rightarrow> config_responseType c)\<rparr>],
         pending := map Inr rs @ rest\<rparr>"
    let ?next = "getAllGroupMemberIds_loop groupId opts (acc @ memberIds (data r)) (next (data r)) ?s1"
    have unfold: "getAllGroupMemberIds_loop groupId opts acc cursor s = ?next"
      by (subst getAllGroupMemberIds_loop.simps)
         (simp add: getGroupMemberIds_resolved [OF step] Let_def t)
    have ih: "fst ?next =
           Some (Inr ((acc @ memberIds (data r)) @ concat (map (\<lambda>r. memberIds (data r)) rs)))
       \<and> pending (snd ?next) = rest
       \<and> this (snd ?next) = this ?s1
       \<and> map (\<lambda>q. (req_method q, req_url q)) (sent (snd ?next)) =
           map (\<lambda>q. (req_method q, req_url q)) (sent ?s1) @
           map (\<lambda>c. (GET, ''/v2/bot/group/'' @ groupId @ ''/members/ids'' @ start_query c))
             (next (data r) # map (\<lambda>r. next (data r)) (butlast rs))"
      using Cons.prems False by (intro Cons.IH) auto
    show ?thesis
      unfolding unfold using ih False by simp
  qed
qed

lemma group_loop_rejected:
  assumes "\<forall>r \<in> set rs. truthy (next (data r))"
    and "pending s = map Inr rs @ Inl err # rest"
  shows "fst (getAllGroupMemberIds_loop groupId opts acc cursor s) =
           Some (Inl (handleError_thrown err))"
  using assms
proof (induction rs arbitrary: acc cursor s)
  case Nil
  then have "pending s = Inl err # rest" by simp
  then show ?case
    by (subst getAllGroupMemberIds_loop.simps) (simp add: getGroupMemberIds_rejected)
next
  case (Cons r rs)
  have step: "pending s = Inr r # (map Inr rs @ Inl err # rest)"
    using Cons.prems(2) by simp
  from Cons.prems have t: "truthy (next (data r))" by simp
  show ?case
    by (subst getAllGroupMemberIds_loop.simps)
       (simp add: getGroupMemberIds_resolved [OF step] Let_def t Cons.IH Cons.prems)
qed

lemma getRoomMemberIds_resolved:
  "pending s = Inr res # rs \<Longrightarrow>
   getRoomMemberIds roomId cursor opts s =
     (Some (Inr (data res)),
      s\<lparr>sent := sent s @
           [\<lparr>req_method = GET, req_baseURL = baseURL (priv_axios (this s)),
             req_url = ''/v2/bot/room/'' @ roomId @ ''/members/ids'' @ start_query cursor,
             req_headers = headers (priv_axios (this s)) ++
               (case bearer_config (accessToken opts) of None \<Rightarrow> Map.empty
                | Some c \<Rightarrow> config_headers c),
             req_data = No_Data,
             req_responseType = (case bearer_config (accessToken opts) of None \<Rightarrow> None
                | Some c \<Rightarrow> config_responseType c)\<rparr>],
         pending := rs\<rparr>)"
  by (simp add: getRoomMemberIds_def axios_get_def axios_request_Cons Let_def
      data_or_handleError_def then2_def)

lemma getRoomMemberIds_rejected:
  "pending s = Inl err # rs \<Longrightarrow>
   getRoomMemberIds roomId cursor opts s =
     (Some (Inl (handleError_thrown err)),
      s\<lparr>sent := sent s @
           [\<lparr>req_method = GET, req_baseURL = baseURL (priv_axios (this s)),
             req_url = ''/v2/bot/room/'' @ roomId @ ''/members/ids'' @ start_query cursor,
             req_headers = headers (priv_axios (this s)) ++
               (case bearer_config (accessToken opts) of None \<Rightarrow> Map.empty
                | Some c \<Rightarrow> config_headers c),
             req_data = No_Data,
             req_responseType = (case bearer_config (accessToken opts) of None \<Rightarrow> None
                | Some c \<Rightarrow> config_responseType c)\<rparr>],
         pending := rs\<rparr>)"
  by (simp add: getRoomMemberIds_def axios_get_def axios_request_Cons Let_def
      data_or_handleError_def then2_def handleError_def)

lemma room_loop_pages:
  assumes "rs \<noteq> []"
    and "\<forall>r \<in> set (butlast rs). truthy (next (data r))"
    and "\<not> truthy (next (data (last rs)))"
    and "pending s = map Inr rs @ rest"
  shows "fst (getAllRoomMemberIds_loop roomId opts acc cursor s) =
           Some (Inr (acc @ concat (map (\<lambda>r. memberIds (data r)) rs)))
       \<and> pending (snd (getAllRoomMemberIds_loop roomId opts acc cursor s)) = rest
       \<and> this (snd (getAllRoomMemberIds_loop roomId opts acc cursor s)) = this s
       \<and> map (\<lambda>q. (req_method q, req_url q))
           (sent (snd (getAllRoomMemberIds_loop roomId opts acc cursor s))) =
           map (\<lambda>q. (req_method q, req_url q)) (sent s) @
           map (\<lambda>c. (GET, ''/v2/bot/room/'' @ roomId @ ''/members/ids'' @ start_query c))
             (cursor # map (\<lambda>r. next (data r)) (butlast rs))"
  using assms
proof (induction rs arbitrary: acc cursor s)
  case Nil
  then show ?case by simp
next
  case (Cons r rs)
  have step: "pending s = Inr r # (map Inr rs @ rest)"
    using Cons.prems(4) by simp
  show ?case
  proof (cases "rs = []")
    case True
    with Cons.prems have "\<not> truthy (next (data r))" by simp
    with True show ?thesis
      by (subst (1 2 3 4) getAllRoomMemberIds_loop.simps)
         (simp add: getRoomMemberIds_resolved [OF step] Let_def)
  next
    case False
    with Cons.prems have t: "truthy (next (data r))" by simp
    let ?s1 = "s\<lparr>sent := sent s @
           [\<lparr>req_method = GET, req_baseURL = baseURL (priv_axios (this s)),
             req_url = ''/v2/bot/room/'' @ roomId @ ''/members/ids'' @ start_query cursor,
             req_headers = headers (priv_axios (this s)) ++
               (case bearer_config (accessToken opts) of None \<Rightarrow> Map.empty
                | Some c \<Rightarrow> config_headers c),
             req_data = No_Data,
             req_responseType = (case bearer_config (accessToken opts) of None \<Rightarrow> None
                | Some c \<Rightarrow> config_responseType c)\<rparr>],
         pending := map Inr rs @ rest\<rparr>"
    let ?next = "getAllRoomMemberIds_loop roomId opts (acc @ memberIds (data r)) (next (data r)) ?s1"
    have unfold: "getAllRoomMemberIds_loop roomId opts acc cursor s = ?next"
      by (subst getAllRoomMemberIds_loop.simps)
         (simp add: getRoomMemberIds_resolved [OF step] Let_def t)
    have ih: "fst ?next =
           Some (Inr ((acc @ memberIds (data r)) @ concat (map (\<lambda>r. memberIds (data r)) rs)))
       \<and> pending (snd ?next) = rest
       \<and> this (snd ?next) = this ?s1
       \<and> map (\<lambda>q. (req_method q, req_url q)) (sent (snd ?next)) =
           map (\<lambda>q. (req_method q, req_url q)) (sent ?s1) @
           map (\<lambda>c. (GET, ''/v2/bot/room/'' @ roomId @ ''/members/ids'' @ start_query c))
             (next (data r) # map (\<lambda>r. next (data r)) (butlast rs))"
      using Cons.prems False by (intro Cons.IH) auto
    show ?thesis
      unfolding unfold using ih False by simp
  qed
qed

lemma room_loop_rejected:
  assumes "\<forall>r \<in> set rs. truthy (next (data r))"
    and "pending s = map Inr rs @ Inl err # rest"
  shows "fst (getAllRoomMemberIds_loop roomId opts acc cursor s) =
           Some (Inl (handleError_thrown err))"
  using assms
proof (induction rs arbitrary: acc cursor s)
  case Nil
  then have "pending s = Inl err # rest" by simp
  then show ?case
    by (subst getAllRoomMemberIds_loop.simps) (simp add: getRoomMemberIds_rejected)
next
  case (Cons r rs)
  have step: "pending s = Inr r # (map Inr rs @ Inl err # rest)"
    using Cons.prems(2) by simp
  from Cons.prems have t: "truthy (next (data r))" by simp
  show ?case
    by (subst getAllRoomMemberIds_loop.simps)
       (simp add: getRoomMemberIds_resolved [OF step] Let_def t Cons.IH Cons.prems)
qed

text \<open>
  Claim C3 as stated fails where a page's \<open>next\<close> is present but empty: the loop's test
  \<^verbatim>\<open>while (continuationToken)\<close> is a truthiness test, so the empty cursor ends the
  accumulation although the cursor is not absent. With the pages
  \<open>{memberIds: ["u1"], next: ""}\<close> and \<open>{memberIds: ["u2"]}\<close> the client returns
  \<open>["u1"]\<close> after one fetch, where accumulation up to the page without \<open>next\<close> gives
  \<open>["u1", "u2"]\<close>.
\<close>

theorem getAllGroupMemberIds_empty_cursor:
  "fst (getAllGroupMemberIds ''G'' \<lparr>accessToken = None\<rparr>
      \<lparr>this = new_LineClient () (Token ''T'') None,
       pending = [Inr \<lparr>data = \<lparr>memberIds = [''u1''], next = Some []\<rparr>, status = 200\<rparr>,
                  Inr \<lparr>data = \<lparr>memberIds = [''u2''], next = None\<rparr>, status = 200\<rparr>],
       sent = ([] :: unit request list)\<rparr>) = Some (Inr [''u1''])
   \<and> map (\<lambda>q. (req_method q, req_url q))
       (sent (snd (getAllGroupMemberIds ''G'' \<lparr>accessToken = None\<rparr>
          \<lparr>this = new_LineClient () (Token ''T'') None,
           pending = [Inr \<lparr>data = \<lparr>memberIds = [''u1''], next = Some []\<rparr>, status = 200\<rparr>,
                      Inr \<lparr>data = \<lparr>memberIds = [''u2''], next = None\<rparr>, status = 200\<rparr>],
           sent = ([] :: unit request list)\<rparr>))) = [(GET, ''/v2/bot/group/G/members/ids'')]
   \<and> spec_collectAll [\<lparr>memberIds = [''u1''], next = Some []\<rparr>,
                       \<lparr>memberIds = [''u2''], next = None\<rparr>] = Some [''u1'', ''u2'']
   \<and> fst (getAllGroupMemberIds ''G'' \<lparr>accessToken = None\<rparr>
      \<lparr>this = new_LineClient () (Token ''T'') None,
       pending = [Inr \<lparr>data = \<lparr>memberIds = [''u1''], next = Some []\<rparr>, status = 200\<rparr>,
                  Inr \<lparr>data = \<lparr>memberIds = [''u2''], next = None\<rparr>, status = 200\<rparr>],
       sent = ([] :: unit request list)\<rparr>) \<noteq>
     map_option Inr (spec_collectAll [\<lparr>memberIds = [''u1''], next = Some []\<rparr>,
                       \<lparr>memberIds = [''u2''], next = None\<rparr>])"
proof -
  let ?s = "\<lparr>this = new_LineClient () (Token ''T'') None,
       pending = [Inr \<lparr>data = \<lparr>memberIds = [''u1''], next = Some []\<rparr>, status = 200\<rparr>,
                  Inr \<lparr>data = \<lparr>memberIds = [''u2''], next = None\<rparr>, status = 200\<rparr>],
       sent = ([] :: unit request list)\<rparr>"
  have run: "fst (getAllGroupMemberIds_loop ''G'' \<lparr>accessToken = None\<rparr> [] None ?s) =
           Some (Inr ([] @ concat (map (\<lambda>r. memberIds (data r))
             [\<lparr>data = \<lparr>memberIds = [''u1''], next = Some []\<rparr>, status = 200\<rparr>])))
       \<and> pending (snd (getAllGroupMemberIds_loop ''G'' \<lparr>accessToken = None\<rparr> [] None ?s)) =
           [Inr \<lparr>data = \<lparr>memberIds = [''u2''], next = None\<rparr>, status = 200\<rparr>]
       \<and> this (snd (getAllGroupMemberIds_loop ''G'' \<lparr>accessToken = None\<rparr> [] None ?s)) = this ?s
       \<and> map (\<lambda>q. (req_method q, req_url q))
           (sent (snd (getAllGroupMemberIds_loop ''G'' \<lparr>accessToken = None\<rparr> [] None ?s))) =
           map (\<lambda>q. (req_method q, req_url q)) (sent ?s) @
           map (\<lambda>c. (GET, ''/v2/bot/group/'' @ ''G'' @ ''/members/ids'' @ start_query c))
             (None # map (\<lambda>r. next (data r))
                (butlast [\<lparr>data = \<lparr>memberIds = [''u1''], next = Some []\<rparr>, status = 200\<rparr>]))"
    by (rule group_loop_pages) (simp_all add: truthy_def)
  from run have "fst (getAllGroupMemberIds ''G'' \<lparr>accessToken = None\<rparr> ?s) = Some (Inr [''u1''])"
    by (simp add: getAllGroupMemberIds_def)
  moreover from run
  have "map (\<lambda>q. (req_method q, req_url q))
          (sent (snd (getAllGroupMemberIds ''G'' \<lparr>accessToken = None\<rparr> ?s))) =
        [(GET, ''/v2/bot/group/G/members/ids'')]"
    by (simp add: getAllGroupMemberIds_def start_query_def)
  moreover have "spec_collectAll [\<lparr>memberIds = [''u1''], next = Some []\<rparr>,
                       \<lparr>memberIds = [''u2''], next = None\<rparr>] = Some [''u1'', ''u2'']"
    by simp
  ultimately show ?thesis by simp
qed

text \<open>
  Claim C3, amended. Given any run of pages in which every page but the last names a
  non-empty next cursor and the last names none or the empty one,
  \<open>getAllGroupMemberIds\<close> and \<open>getAllRoomMemberIds\<close> start with an undefined cursor,
  fetch one page after the other, each with the cursor of the page before, and return
  the member IDs of all pages in page order and in their order within a page. For the
  pages \<open>{memberIds: ["u1","u2"], next: "tok1"}\<close> and \<open>{memberIds: ["u3"]}\<close> the result
  is \<open>["u1","u2","u3"]\<close> after two fetches, the second with \<open>?start=tok1\<close> (the witness).
\<close>

theorem getAllMemberIds_accumulates_pages:
  assumes "rs \<noteq> []"
    and "\<forall>r \<in> set (butlast rs). truthy (next (data r))"
    and "\<not> truthy (next (data (last rs)))"
    and "pending s = map Inr rs @ rest"
  shows "fst (getAllGroupMemberIds groupId opts s) =
           Some (Inr (concat (map (\<lambda>r. memberIds (data r)) rs)))
       \<and> map (\<lambda>q. (req_method q, req_url q)) (sent (snd (getAllGroupMemberIds groupId opts s))) =
           map (\<lambda>q. (req_method q, req_url q)) (sent s) @
           map (\<lambda>c. (GET, ''/v2/bot/group/'' @ groupId @ ''/members/ids'' @ start_query c))
             (None # map (\<lambda>r. next (data r)) (butlast rs))
       \<and> pending (snd (getAllGroupMemberIds groupId opts s)) = rest
       \<and> fst (getAllRoomMemberIds roomId opts s) =
           Some (Inr (concat (map (\<lambda>r. memberIds (data r)) rs)))
       \<and> map (\<lambda>q. (req_method q, req_url q)) (sent (snd (getAllRoomMemberIds roomId opts s))) =
           map (\<lambda>q. (req_method q, req_url q)) (sent s) @
           map (\<lambda>c. (GET, ''/v2/bot/room/'' @ roomId @ ''/members/ids'' @ start_query c))
             (None # map (\<lambda>r. next (data r)) (butlast rs))
       \<and> pending (snd (getAllRoomMemberIds roomId opts s)) = rest"
  using group_loop_pages [OF assms, of groupId opts "[]" None]
    room_loop_pages [OF assms, of roomId opts "[]" None]
  by (simp add: getAllGroupMemberIds_def getAllRoomMemberIds_def)

theorem getAllMemberIds_accumulates_pages_witness:
  "fst (getAllGroupMemberIds ''G'' \<lparr>accessToken = None\<rparr>
      \<lparr>this = new_LineClient () (Token ''T'') None,
       pending = [Inr \<lparr>data = \<lparr>memberIds = [''u1'', ''u2''], next = Some ''tok1''\<rparr>, status = 200\<rparr>,
                  Inr \<lparr>data = \<lparr>memberIds = [''u3''], next = None\<rparr>, status = 200\<rparr>],
       sent = ([] :: unit request list)\<rparr>) = Some (Inr [''u1'', ''u2'', ''u3''])
   \<and> map (\<lambda>q. (req_method q, req_url q))
       (sent (snd (getAllGroupMemberIds ''G'' \<lparr>accessToken = None\<rparr>
          \<lparr>this = new_LineClient () (Token ''T'') None,
           pending = [Inr \<lparr>data = \<lparr>memberIds = [''u1'', ''u2''], next = Some ''tok1''\<rparr>, status = 200\<rparr>,
                      Inr \<lparr>data = \<lparr>memberIds = [''u3''], next = None\<rparr>, status = 200\<rparr>],
           sent = ([] :: unit request list)\<rparr>))) =
       [(GET, ''/v2/bot/group/G/members/ids''), (GET, ''/v2/bot/group/G/members/ids?start=tok1'')]"
  using getAllMemberIds_accumulates_pages
    [of "[\<lparr>data = \<lparr>memberIds = [''u1'', ''u2''], next = Some ''tok1''\<rparr>, status = 200\<rparr>,
          \<lparr>data = \<lparr>memberIds = [''u3''], next = None\<rparr>, status = 200\<rparr>]"
        "\<lparr>this = new_LineClient () (Token ''T'') None,
          pending = [Inr \<lparr>data = \<lparr>memberIds = [''u1'', ''u2''], next = Some ''tok1''\<rparr>, status = 200\<rparr>,
                     Inr \<lparr>data = \<lparr>memberIds = [''u3''], next = None\<rparr>, status = 200\<rparr>],
          sent = ([] :: unit request list)\<rparr>"
        "[]" "''G''" "\<lparr>accessToken = None\<rparr>" "''R''"]
  by (simp add: truthy_def start_query_def)

text \<open>
  Claim C4. When a page fetch fails during the accumulation (the pages before it all
  named a next cursor), \<open>getAllGroupMemberIds\<close> and \<open>getAllRoomMemberIds\<close> reject with
  the normalised error of that failure; the member IDs accumulated so far are not
  returned.
\<close>

theorem getAllMemberIds_aborts_on_failure:
  assumes "\<forall>r \<in> set rs. truthy (next (data r))"
    and "pending s = map Inr rs @ Inl err # rest"
  shows "fst (getAllGroupMemberIds groupId opts s) = Some (Inl (handleError_thrown err))
       \<and> (\<forall>ids. fst (getAllGroupMemberIds groupId opts s) \<noteq> Some (Inr ids))
       \<and> fst (getAllRoomMemberIds roomId opts s) = Some (Inl (handleError_thrown err))
       \<and> (\<forall>ids. fst (getAllRoomMemberIds roomId opts s) \<noteq> Some (Inr ids))"
  using group_loop_rejected [OF assms, of groupId opts "[]" None]
    room_loop_rejected [OF assms, of roomId opts "[]" None]
  by (simp add: getAllGroupMemberIds_def getAllRoomMemberIds_def)

theorem getAllMemberIds_aborts_on_failure_witness:
  "fst (getAllGroupMemberIds ''G'' \<lparr>accessToken = None\<rparr>
      \<lparr>this = new_LineClient () (Token ''T'') None,
       pending = [Inr \<lparr>data = \<lparr>memberIds = [''u1'', ''u2''], next = Some ''tok1''\<rparr>, status = 200\<rparr>,
                  Inl (Failure ''timeout of 1000ms exceeded'' None)],
       sent = ([] :: unit request list)\<rparr>) =
     Some (Inl (AxiosError ''timeout of 1000ms exceeded''
       (Failure ''timeout of 1000ms exceeded'' None)))"
  using getAllMemberIds_aborts_on_failure
    [of "[\<lparr>data = \<lparr>memberIds = [''u1'', ''u2''], next = Some ''tok1''\<rparr>, status = 200\<rparr>]"
        "\<lparr>this = new_LineClient () (Token ''T'') None,
          pending = [Inr \<lparr>data = \<lparr>memberIds = [''u1'', ''u2''], next = Some ''tok1''\<rparr>, status = 200\<rparr>,
                     Inl (Failure ''timeout of 1000ms exceeded'' None)],
          sent = ([] :: unit request list)\<rparr>"
        "Failure ''timeout of 1000ms exceeded'' None" "[]" "''G''" "\<lparr>accessToken = None\<rparr>" "''R''"]
  by (simp add: truthy_def handleError_thrown_def)

lemmas endpoint_defs =
  createLiffApp_def createRichMenu_def deleteDefaultRichMenu_def deleteLiffApp_def
  deleteRichMenu_def downloadRichMenuImage_def getDefaultRichMenu_def getGroupMemberIds_def
  getGroupMemberProfile_def getLiffAppList_def getLinkedRichMenu_def getRichMenu_def
  getRichMenuList_def getRoomMemberIds_def getRoomMemberProfile_def getUserProfile_def
  issueLinkToken_def leaveGroup_def leaveRoom_def linkRichMenu_def
  retrieveMessageContent_def setDefaultRichMenu_def unlinkRichMenu_def updateLiffApp_def
  uploadRichMenuImage_def

section \<open>Not-found softening\<close>

lemma null_on_404_thrown:
  "error_response err = Some response \<Longrightarrow> status response = 404 \<Longrightarrow>
     null_on_404 (handleError_thrown err) = Inr None"
  by (simp add: null_on_404_def handleError_thrown_def Let_def split: option.split)

lemma null_on_404_failure:
  "error_response err = Some response \<Longrightarrow> status response = 404 \<Longrightarrow>
     null_on_404 err = Inr None"
  by (simp add: null_on_404_def)

lemma getUserProfile_softens: "softens_404 (getUserProfile userId opts)"
  unfolding softens_404_def
  by (auto simp: getUserProfile_def axios_verb_defs axios_request_fst promise_defs handleError_def
      null_on_404_thrown null_on_404_failure Let_def split_beta)

lemma getRichMenu_softens: "softens_404 (getRichMenu richMenuId opts)"
  unfolding softens_404_def
  by (auto simp: getRichMenu_def axios_verb_defs axios_request_fst promise_defs handleError_def
      null_on_404_thrown null_on_404_failure Let_def split_beta)

lemma getLinkedRichMenu_softens: "softens_404 (getLinkedRichMenu userId opts)"
  unfolding softens_404_def
  by (auto simp: getLinkedRichMenu_def axios_verb_defs axios_request_fst promise_defs handleError_def
      null_on_404_thrown null_on_404_failure Let_def split_beta)

lemma getDefaultRichMenu_softens: "softens_404 (getDefaultRichMenu opts)"
  unfolding softens_404_def
  by (auto simp: getDefaultRichMenu_def axios_verb_defs axios_request_fst promise_defs handleError_def
      null_on_404_thrown null_on_404_failure Let_def split_beta)

lemma downloadRichMenuImage_softens: "softens_404 (downloadRichMenuImage richMenuId opts)"
  unfolding softens_404_def
  by (auto simp: downloadRichMenuImage_def axios_verb_defs axios_request_fst promise_defs handleError_def
      null_on_404_thrown null_on_404_failure Let_def split_beta)

lemma replyRawBody_raises: "raises_on_404 (replyRawBody body opts)"
  unfolding raises_on_404_def
  by (auto simp: send_defs axios_verb_defs axios_request_fst promise_defs handleError_def
      Let_def split_beta)

lemma pushRawBody_raises: "raises_on_404 (pushRawBody body opts)"
  unfolding raises_on_404_def
  by (auto simp: send_defs axios_verb_defs axios_request_fst promise_defs handleError_def
      Let_def split_beta)

lemma multicastRawBody_raises: "raises_on_404 (multicastRawBody body opts)"
  unfolding raises_on_404_def
  by (auto simp: send_defs axios_verb_defs axios_request_fst promise_defs handleError_def
      Let_def split_beta)

lemma reply_raises: "raises_on_404 (reply target messages opts)"
  unfolding raises_on_404_def
  by (auto simp: send_defs axios_verb_defs axios_request_fst promise_defs handleError_def
      Let_def split_beta)

lemma push_raises: "raises_on_404 (push target messages opts)"
  unfolding raises_on_404_def
  by (auto simp: send_defs axios_verb_defs axios_request_fst promise_defs handleError_def
      Let_def split_beta)

lemma multicast_raises: "raises_on_404 (multicast target messages opts)"
  unfolding raises_on_404_def
  by (auto simp: send_defs axios_verb_defs axios_request_fst promise_defs handleError_def
      Let_def split_beta)

lemma priv_send_raises: "raises_on_404 (priv_send type target messages opts)"
  unfolding raises_on_404_def
  by (auto simp: send_defs axios_verb_defs axios_request_fst promise_defs handleError_def
      Let_def split_beta)

lemma replyMessages_raises: "raises_on_404 (replyMessages target messages opts)"
  unfolding raises_on_404_def
  by (auto simp: send_defs axios_verb_defs axios_request_fst promise_defs handleError_def
      Let_def split_beta)

lemma pushMessages_raises: "raises_on_404 (pushMessages target messages opts)"
  unfolding raises_on_404_def
  by (auto simp: send_defs axios_verb_defs axios_request_fst promise_defs handleError_def
      Let_def split_beta)

lemma multicastMessages_raises: "raises_on_404 (multicastMessages target messages opts)"
  unfolding raises_on_404_def
  by (auto simp: send_defs axios_verb_defs axios_request_fst promise_defs handleError_def
      Let_def split_beta)

lemma retrieveMessageContent_raises: "raises_on_404 (retrieveMessageContent messageId opts)"
  unfolding raises_on_404_def
  by (auto simp: retrieveMessageContent_def axios_verb_defs axios_request_fst promise_defs handleError_def
      Let_def split_beta)

lemma getGroupMemberProfile_raises: "raises_on_404 (getGroupMemberProfile groupId userId opts)"
  unfolding raises_on_404_def
  by (auto simp: getGroupMemberProfile_def axios_verb_defs axios_request_fst promise_defs handleError_def
      Let_def split_beta)

lemma getRoomMemberProfile_raises: "raises_on_404 (getRoomMemberProfile roomId userId opts)"
  unfolding raises_on_404_def
  by (auto simp: getRoomMemberProfile_def axios_verb_defs axios_request_fst promise_defs handleError_def
      Let_def split_beta)

lemma getGroupMemberIds_raises: "raises_on_404 (getGroupMemberIds groupId start opts)"
  unfolding raises_on_404_def
  by (auto simp: getGroupMemberIds_def axios_verb_defs axios_request_fst promise_defs handleError_def
      Let_def split_beta)

lemma getRoomMemberIds_raises: "raises_on_404 (getRoomMemberIds roomId start opts)"
  unfolding raises_on_404_def
  by (auto simp: getRoomMemberIds_def axios_verb_defs axios_request_fst promise_defs handleError_def
      Let_def split_beta)

lemma leaveGroup_raises: "raises_on_404 (leaveGroup groupId opts)"
  unfolding raises_on_404_def
  by (auto simp: leaveGroup_def axios_verb_defs axios_request_fst promise_defs handleError_def
      Let_def split_beta)

lemma leaveRoom_raises: "raises_on_404 (leaveRoom roomId opts)"
  unfolding raises_on_404_def
  by (auto simp: leaveRoom_def axios_verb_defs axios_request_fst promise_defs handleError_def
      Let_def split_beta)

lemma getRichMenuList_raises: "raises_on_404 (getRichMenuList opts)"
  unfolding raises_on_404_def
  by (auto simp: getRichMenuList_def axios_verb_defs axios_request_fst promise_defs handleError_def
      Let_def split_beta)

lemma createRichMenu_raises: "raises_on_404 (createRichMenu richMenu opts)"
  unfolding raises_on_404_def
  by (auto simp: createRichMenu_def axios_verb_defs axios_request_fst promise_defs handleError_def
      Let_def split_beta)

lemma deleteRichMenu_raises: "raises_on_404 (deleteRichMenu richMenuId opts)"
  unfolding raises_on_404_def
  by (auto simp: deleteRichMenu_def axios_verb_defs axios_request_fst promise_defs handleError_def
      Let_def split_beta)

lemma linkRichMenu_raises: "raises_on_404 (linkRichMenu userId richMenuId opts)"
  unfolding raises_on_404_def
  by (auto simp: linkRichMenu_def axios_verb_defs axios_request_fst promise_defs handleError_def
      Let_def split_beta)

lemma unlinkRichMenu_raises: "raises_on_404 (unlinkRichMenu userId opts)"
  unfolding raises_on_404_def
  by (auto simp: unlinkRichMenu_def axios_verb_defs axios_request_fst promise_defs handleError_def
      Let_def split_beta)

lemma setDefaultRichMenu_raises: "raises_on_404 (setDefaultRichMenu richMenuId opts)"
  unfolding raises_on_404_def
  by (auto simp: setDefaultRichMenu_def axios_verb_defs axios_request_fst promise_defs handleError_def
      Let_def split_beta)

lemma deleteDefaultRichMenu_raises: "raises_on_404 (deleteDefaultRichMenu opts)"
  unfolding raises_on_404_def
  by (auto simp: deleteDefaultRichMenu_def axios_verb_defs axios_request_fst promise_defs handleError_def
      Let_def split_beta)

lemma issueLinkToken_raises: "raises_on_404 (issueLinkToken userId opts)"
  unfolding raises_on_404_def
  by (auto simp: issueLinkToken_def axios_verb_defs axios_request_fst promise_defs handleError_def
      Let_def split_beta)

lemma getLiffAppList_raises: "raises_on_404 (getLiffAppList opts)"
  unfolding raises_on_404_def
  by (auto simp: getLiffAppList_def axios_verb_defs axios_request_fst promise_defs handleError_def
      Let_def split_beta)

lemma createLiffApp_raises: "raises_on_404 (createLiffApp view opts)"
  unfolding raises_on_404_def
  by (auto simp: createLiffApp_def axios_verb_defs axios_request_fst promise_defs handleError_def
      Let_def split_beta)

lemma updateLiffApp_raises: "raises_on_404 (updateLiffApp liffId view opts)"
  unfolding raises_on_404_def
  by (auto simp: updateLiffApp_def axios_verb_defs axios_request_fst promise_defs handleError_def
      Let_def split_beta)

lemma deleteLiffApp_raises: "raises_on_404 (deleteLiffApp liffId opts)"
  unfolding raises_on_404_def
  by (auto simp: deleteLiffApp_def axios_verb_defs axios_request_fst promise_defs handleError_def
      Let_def split_beta)

lemma uploadRichMenuImage_raises:
  "imageType image_buffer = Some type \<Longrightarrow> mime type = ''image/jpeg'' \<or> mime type = ''image/png'' \<Longrightarrow>
     raises_on_404 (uploadRichMenuImage imageType richMenuId image_buffer opts)"
  unfolding raises_on_404_def
  by (auto simp: uploadRichMenuImage_def axios_verb_defs axios_request_fst promise_defs
      handleError_def Let_def split_beta)

lemma getAllGroupMemberIds_raises: "raises_on_404 (getAllGroupMemberIds groupId opts)"
  unfolding raises_on_404_def getAllGroupMemberIds_def
  by (auto intro: group_loop_rejected [of "[]", simplified])

lemma getAllRoomMemberIds_raises: "raises_on_404 (getAllRoomMemberIds roomId opts)"
  unfolding raises_on_404_def getAllRoomMemberIds_def
  by (auto intro: room_loop_rejected [of "[]", simplified])

text \<open>
  Claim C7. The five lookups \<open>getUserProfile\<close>, \<open>getRichMenu\<close>, \<open>getLinkedRichMenu\<close>,
  \<open>getDefaultRichMenu\<close> and \<open>downloadRichMenuImage\<close> answer a 404 response with
  \<^verbatim>\<open>null\<close>; every other operation, the member ID listings and the mutations among
  them, rejects with the normalised error on a 404 response. The conjuncts range over
  all methods that call the axios instance, the dispatchers and both accumulators; the
  adapters for the message kinds build a message list and call \<open>_send\<close>.
\<close>

theorem not_found_softening:
  "softens_404 (getUserProfile userId opts)
   \<and> softens_404 (getRichMenu richMenuId opts)
   \<and> softens_404 (getLinkedRichMenu userId opts)
   \<and> softens_404 (getDefaultRichMenu opts)
   \<and> softens_404 (downloadRichMenuImage richMenuId opts)
   \<and> raises_on_404 (replyRawBody body opts)
   \<and> raises_on_404 (pushRawBody body opts)
   \<and> raises_on_404 (multicastRawBody body opts)
   \<and> raises_on_404 (reply target messages opts)
   \<and> raises_on_404 (push target messages opts)
   \<and> raises_on_404 (multicast target messages opts)
   \<and> raises_on_404 (priv_send type target messages opts)
   \<and> raises_on_404 (replyMessages target messages opts)
   \<and> raises_on_404 (pushMessages target messages opts)
   \<and> raises_on_404 (multicastMessages target messages opts)
   \<and> raises_on_404 (retrieveMessageContent messageId opts)
   \<and> raises_on_404 (getGroupMemberProfile groupId userId opts)
   \<and> raises_on_404 (getRoomMemberProfile roomId userId opts)
   \<and> raises_on_404 (getGroupMemberIds groupId start opts)
   \<and> raises_on_404 (getRoomMemberIds roomId start opts)
   \<and> raises_on_404 (leaveGroup groupId opts)
   \<and> raises_on_404 (leaveRoom roomId opts)
   \<and> raises_on_404 (getRichMenuList opts)
   \<and> raises_on_404 (createRichMenu richMenu opts)
   \<and> raises_on_404 (deleteRichMenu richMenuId opts)
   \<and> raises_on_404 (linkRichMenu userId richMenuId opts)
   \<and> raises_on_404 (unlinkRichMenu userId opts)
   \<and> raises_on_404 (setDefaultRichMenu richMenuId opts)
   \<and> raises_on_404 (deleteDefaultRichMenu opts)
   \<and> raises_on_404 (issueLinkToken userId opts)
   \<and> raises_on_404 (getLiffAppList opts)
   \<and> raises_on_404 (createLiffApp view opts)
   \<and> raises_on_404 (updateLiffApp liffId view opts)
   \<and> raises_on_404 (deleteLiffApp liffId opts)
   \<and> raises_on_404 (getAllGroupMemberIds groupId opts)
   \<and> raises_on_404 (getAllRoomMemberIds roomId opts)
   \<and> (\<forall>type. imageType image_buffer = Some type \<and>
          (mime type = ''image/jpeg'' \<or> mime type = ''image/png'') \<longrightarrow>
        raises_on_404 (uploadRichMenuImage imageType richMenuId image_buffer opts))"
  by (intro conjI allI impI)
     (blast intro: getUserProfile_softens getRichMenu_softens getLinkedRichMenu_softens getDefaultRichMenu_softens downloadRichMenuImage_softens
      replyRawBody_raises pushRawBody_raises multicastRawBody_raises reply_raises
      push_raises multicast_raises priv_send_raises replyMessages_raises
      pushMessages_raises multicastMessages_raises retrieveMessageContent_raises getGroupMemberProfile_raises
      getRoomMemberProfile_raises getGroupMemberIds_raises getRoomMemberIds_raises leaveGroup_raises
      leaveRoom_raises getRichMenuList_raises createRichMenu_raises deleteRichMenu_raises
      linkRichMenu_raises unlinkRichMenu_raises setDefaultRichMenu_raises deleteDefaultRichMenu_raises
      issueLinkToken_raises getLiffAppList_raises createLiffApp_raises updateLiffApp_raises
      deleteLiffApp_raises getAllGroupMemberIds_raises getAllRoomMemberIds_raises
      uploadRichMenuImage_raises)+

theorem not_found_softening_witness:
  "fst (getUserProfile ''U1'' \<lparr>accessToken = None\<rparr>
        (\<lparr>this = new_LineClient () (Token ''T'') None,
         pending = [Inl (Failure ''Request failed with status code 404''
                      (Some \<lparr>data = Some \<lparr>message = ''Not found'', details = None\<rparr>,
                               status = 404\<rparr>))],
         sent = ([] :: unit request list)\<rparr> :: (unit, unit, unit) state)) = Some (Inr None)
   \<and> fst (getGroupMemberIds ''G'' None \<lparr>accessToken = None\<rparr>
        \<lparr>this = new_LineClient () (Token ''T'') None,
         pending = [Inl (Failure ''Request failed with status code 404''
                      (Some \<lparr>data = Some \<lparr>message = ''Not found'', details = None\<rparr>,
                               status = 404\<rparr>))],
         sent = ([] :: unit request list)\<rparr>) =
       Some (Inl (AxiosError ''LINE API - Not found''
         (Failure ''Request failed with status code 404''
            (Some \<lparr>data = Some \<lparr>message = ''Not found'', details = None\<rparr>, status = 404\<rparr>))))"
proof -
  let ?err = "Failure ''Request failed with status code 404''
                (Some \<lparr>data = Some \<lparr>message = ''Not found'', details = None\<rparr>, status = 404\<rparr>)"
  let ?response = "\<lparr>data = Some \<lparr>message = ''Not found'', details = None\<rparr>, status = 404\<rparr>"
  have profile: "softens_404
      (getUserProfile ''U1'' \<lparr>accessToken = None\<rparr> ::
         (unit, unit, unit) state \<Rightarrow> unit option promise \<times> (unit, unit, unit) state)"
    by (rule not_found_softening [THEN conjunct1])
  have ids: "raises_on_404
      (getGroupMemberIds ''G'' None \<lparr>accessToken = None\<rparr> ::
         (page, unit, unit) state \<Rightarrow> page promise \<times> (page, unit, unit) state)"
    by (rule not_found_softening [THEN conjunct2, THEN conjunct2, THEN conjunct2, THEN conjunct2, THEN conjunct2, THEN conjunct2, THEN conjunct2, THEN conjunct2, THEN conjunct2, THEN conjunct2, THEN conjunct2, THEN conjunct2, THEN conjunct2, THEN conjunct2, THEN conjunct2, THEN conjunct2, THEN conjunct2, THEN conjunct2, THEN conjunct1])
  have "fst (getUserProfile ''U1'' \<lparr>accessToken = None\<rparr>
        (\<lparr>this = new_LineClient () (Token ''T'') None, pending = [Inl ?err],
          sent = ([] :: unit request list)\<rparr> :: (unit, unit, unit) state)) = Some (Inr None)"
    using profile [unfolded softens_404_def, rule_format,
        of "\<lparr>this = new_LineClient () (Token ''T'') None, pending = [Inl ?err],
          sent = ([] :: unit request list)\<rparr>" ?err "[]" ?response]
    by simp
  moreover have "fst (getGroupMemberIds ''G'' None \<lparr>accessToken = None\<rparr>
        \<lparr>this = new_LineClient () (Token ''T'') None, pending = [Inl ?err],
          sent = ([] :: unit request list)\<rparr>) = Some (Inl (handleError_thrown ?err))"
    using ids [unfolded raises_on_404_def, rule_format,
        of "\<lparr>this = new_LineClient () (Token ''T'') None, pending = [Inl ?err],
          sent = ([] :: unit request list)\<rparr>" ?err "[]" ?response]
    by simp
  ultimately show ?thesis
    by (simp add: handleError_thrown_def)
qed

section \<open>Image upload preflight\<close>

text \<open>
  Claim C8. \<open>uploadRichMenuImage\<close> on a buffer whose type is not detected, or is
  detected as neither \<open>image/jpeg\<close> nor \<open>image/png\<close>, throws the preflight failure and
  issues no request (the state is unchanged); on an \<open>image/jpeg\<close> or \<open>image/png\<close> buffer
  it issues exactly one request, a POST to \<open>/v2/bot/richmenu/{richMenuId}/content\<close>
  carrying the buffer, whose \<open>Content-Type\<close> header is the detected type.
\<close>

theorem uploadRichMenuImage_preflight:
  "(imageType image_buffer = None \<or>
      (\<exists>type. imageType image_buffer = Some type \<and> mime type \<noteq> ''image/jpeg'' \<and>
         mime type \<noteq> ''image/png'') \<longrightarrow>
      uploadRichMenuImage imageType richMenuId image_buffer opts s =
        (Some (Inl (Invariant_Violation ''Image must be `image/jpeg` or `image/png`'')), s))
   \<and> (\<forall>type. imageType image_buffer = Some type \<and>
         (mime type = ''image/jpeg'' \<or> mime type = ''image/png'') \<longrightarrow>
       (\<exists>req. sent (snd (uploadRichMenuImage imageType richMenuId image_buffer opts s)) =
                sent s @ [req]
          \<and> req_method req = POST
          \<and> req_url req = ''/v2/bot/richmenu/'' @ richMenuId @ ''/content''
          \<and> req_headers req ''Content-Type'' = Some (mime type)
          \<and> req_data req = Binary image_buffer))"
proof (intro conjI impI allI)
  assume "imageType image_buffer = None \<or>
      (\<exists>type. imageType image_buffer = Some type \<and> mime type \<noteq> ''image/jpeg'' \<and>
         mime type \<noteq> ''image/png'')"
  then show "uploadRichMenuImage imageType richMenuId image_buffer opts s =
        (Some (Inl (Invariant_Violation ''Image must be `image/jpeg` or `image/png`'')), s)"
    by (auto simp: uploadRichMenuImage_def)
next
  fix type
  assume ok: "imageType image_buffer = Some type \<and>
         (mime type = ''image/jpeg'' \<or> mime type = ''image/png'')"
  have content_type:
    "(headers (priv_axios (this s)) ++
        ([''Content-Type'' \<mapsto> mime type] ++ spread_authorization (accessToken opts)))
       ''Content-Type'' = Some (mime type)"
    by (simp add: map_add_def spread_authorization_def split: option.split)
  from ok have "sent (snd (uploadRichMenuImage imageType richMenuId image_buffer opts s)) =
      sent s @
        [\<lparr>req_method = POST, req_baseURL = baseURL (priv_axios (this s)),
          req_url = ''/v2/bot/richmenu/'' @ richMenuId @ ''/content'',
          req_headers = headers (priv_axios (this s)) ++
            ([''Content-Type'' \<mapsto> mime type] ++ spread_authorization (accessToken opts)),
          req_data = Binary image_buffer, req_responseType = None\<rparr>]"
    by (auto simp: uploadRichMenuImage_def axios_verb_defs axios_request_sent Let_def split_beta)
  with content_type
  show "\<exists>req. sent (snd (uploadRichMenuImage imageType richMenuId image_buffer opts s)) =
                sent s @ [req]
          \<and> req_method req = POST
          \<and> req_url req = ''/v2/bot/richmenu/'' @ richMenuId @ ''/content''
          \<and> req_headers req ''Content-Type'' = Some (mime type)
          \<and> req_data req = Binary image_buffer"
    by simp
qed

theorem uploadRichMenuImage_preflight_witness:
  "uploadRichMenuImage (\<lambda>b. Some \<lparr>ext = ''gif'', mime = ''image/gif''\<rparr>) ''richmenu-1''
      [0x47, 0x49, 0x46, 0x38] \<lparr>accessToken = None\<rparr>
      \<lparr>this = new_LineClient () (Token ''T'') None,
       pending = [Inr \<lparr>data = (), status = 200\<rparr>], sent = ([] :: unit request list)\<rparr> =
     (Some (Inl (Invariant_Violation ''Image must be `image/jpeg` or `image/png`'')),
      \<lparr>this = new_LineClient () (Token ''T'') None,
       pending = [Inr \<lparr>data = (), status = 200\<rparr>], sent = []\<rparr>)
   \<and> (\<exists>req. sent (snd (uploadRichMenuImage (\<lambda>b. Some \<lparr>ext = ''png'', mime = ''image/png''\<rparr>)
          ''richmenu-1'' [0x89, 0x50, 0x4E, 0x47] \<lparr>accessToken = None\<rparr>
          \<lparr>this = new_LineClient () (Token ''T'') None,
           pending = [Inr \<lparr>data = (), status = 200\<rparr>], sent = ([] :: unit request list)\<rparr>)) = [req]
        \<and> req_method req = POST
        \<and> req_url req = ''/v2/bot/richmenu/richmenu-1/content''
        \<and> req_headers req ''Content-Type'' = Some ''image/png'')"
proof -
  have gif: "uploadRichMenuImage (\<lambda>b. Some \<lparr>ext = ''gif'', mime = ''image/gif''\<rparr>) ''richmenu-1''
      [0x47, 0x49, 0x46, 0x38] \<lparr>accessToken = None\<rparr>
      \<lparr>this = new_LineClient () (Token ''T'') None,
       pending = [Inr \<lparr>data = (), status = 200\<rparr>], sent = ([] :: unit request list)\<rparr> =
     (Some (Inl (Invariant_Violation ''Image must be `image/jpeg` or `image/png`'')),
      \<lparr>this = new_LineClient () (Token ''T'') None,
       pending = [Inr \<lparr>data = (), status = 200\<rparr>], sent = []\<rparr>)"
    by (rule uploadRichMenuImage_preflight [THEN conjunct1, rule_format]) simp
  have png: "\<exists>req. sent (snd (uploadRichMenuImage (\<lambda>b. Some \<lparr>ext = ''png'', mime = ''image/png''\<rparr>)
          ''richmenu-1'' [0x89, 0x50, 0x4E, 0x47] \<lparr>accessToken = None\<rparr>
          \<lparr>this = new_LineClient () (Token ''T'') None,
           pending = [Inr \<lparr>data = (), status = 200\<rparr>], sent = ([] :: unit request list)\<rparr>)) =
            sent \<lparr>this = new_LineClient () (Token ''T'') None,
           pending = [Inr \<lparr>data = (), status = 200\<rparr>], sent = ([] :: unit request list)\<rparr> @ [req]
        \<and> req_method req = POST
        \<and> req_url req = ''/v2/bot/richmenu/'' @ ''richmenu-1'' @ ''/content''
        \<and> req_headers req ''Content-Type'' = Some (mime \<lparr>ext = ''png'', mime = ''image/png''\<rparr>)
        \<and> req_data req = Binary [0x89, 0x50, 0x4E, 0x47]"
    by (rule uploadRichMenuImage_preflight [THEN conjunct2, rule_format]) simp
  from png obtain req where
    "sent (snd (uploadRichMenuImage (\<lambda>b. Some \<lparr>ext = ''png'', mime = ''image/png''\<rparr>)
          ''richmenu-1'' [0x89, 0x50, 0x4E, 0x47] \<lparr>accessToken = None\<rparr>
          \<lparr>this = new_LineClient () (Token ''T'') None,
           pending = [Inr \<lparr>data = (), status = 200\<rparr>], sent = ([] :: unit request list)\<rparr>)) = [req]"
    "req_method req = POST" "req_url req = ''/v2/bot/richmenu/richmenu-1/content''"
    "req_headers req ''Content-Type'' = Some ''image/png''"
    by auto
  with gif show ?thesis by blast
qed

section \<open>The configuration is never written\<close>

lemma replyRawBody_keeps: "keeps_configuration (replyRawBody body opts)"
  unfolding keeps_configuration_def
  by (simp add: send_defs axios_verb_defs axios_request_this Let_def split_beta)

lemma pushRawBody_keeps: "keeps_configuration (pushRawBody body opts)"
  unfolding keeps_configuration_def
  by (simp add: send_defs axios_verb_defs axios_request_this Let_def split_beta)

lemma multicastRawBody_keeps: "keeps_configuration (multicastRawBody body opts)"
  unfolding keeps_configuration_def
  by (simp add: send_defs axios_verb_defs axios_request_this Let_def split_beta)

lemma reply_keeps: "keeps_configuration (reply target messages opts)"
  unfolding keeps_configuration_def
  by (simp add: send_defs axios_verb_defs axios_request_this Let_def split_beta)

lemma push_keeps: "keeps_configuration (push target messages opts)"
  unfolding keeps_configuration_def
  by (simp add: send_defs axios_verb_defs axios_request_this Let_def split_beta)

lemma multicast_keeps: "keeps_configuration (multicast target messages opts)"
  unfolding keeps_configuration_def
  by (simp add: send_defs axios_verb_defs axios_request_this Let_def split_beta)

lemma priv_send_keeps: "keeps_configuration (priv_send type target messages opts)"
  unfolding keeps_configuration_def
  by (simp add: send_defs axios_verb_defs axios_request_this Let_def split_beta)

lemma replyMessages_keeps: "keeps_configuration (replyMessages target messages opts)"
  unfolding keeps_configuration_def
  by (simp add: send_defs axios_verb_defs axios_request_this Let_def split_beta)

lemma pushMessages_keeps: "keeps_configuration (pushMessages target messages opts)"
  unfolding keeps_configuration_def
  by (simp add: send_defs axios_verb_defs axios_request_this Let_def split_beta)

lemma multicastMessages_keeps: "keeps_configuration (multicastMessages target messages opts)"
  unfolding keeps_configuration_def
  by (simp add: send_defs axios_verb_defs axios_request_this Let_def split_beta)

lemma retrieveMessageContent_keeps: "keeps_configuration (retrieveMessageContent messageId opts)"
  unfolding keeps_configuration_def
  by (simp add: retrieveMessageContent_def axios_verb_defs axios_request_this Let_def split_beta)

lemma getGroupMemberProfile_keeps: "keeps_configuration (getGroupMemberProfile groupId userId opts)"
  unfolding keeps_configuration_def
  by (simp add: getGroupMemberProfile_def axios_verb_defs axios_request_this Let_def split_beta)

lemma getRoomMemberProfile_keeps: "keeps_configuration (getRoomMemberProfile roomId userId opts)"
  unfolding keeps_configuration_def
  by (simp add: getRoomMemberProfile_def axios_verb_defs axios_request_this Let_def split_beta)

lemma getGroupMemberIds_keeps: "keeps_configuration (getGroupMemberIds groupId start opts)"
  unfolding keeps_configuration_def
  by (simp add: getGroupMemberIds_def axios_verb_defs axios_request_this Let_def split_beta)

lemma getRoomMemberIds_keeps: "keeps_configuration (getRoomMemberIds roomId start opts)"
  unfolding keeps_configuration_def
  by (simp add: getRoomMemberIds_def axios_verb_defs axios_request_this Let_def split_beta)

lemma leaveGroup_keeps: "keeps_configuration (leaveGroup groupId opts)"
  unfolding keeps_configuration_def
  by (simp add: leaveGroup_def axios_verb_defs axios_request_this Let_def split_beta)

lemma leaveRoom_keeps: "keeps_configuration (leaveRoom roomId opts)"
  unfolding keeps_configuration_def
  by (simp add: leaveRoom_def axios_verb_defs axios_request_this Let_def split_beta)

lemma getRichMenuList_keeps: "keeps_configuration (getRichMenuList opts)"
  unfolding keeps_configuration_def
  by (simp add: getRichMenuList_def axios_verb_defs axios_request_this Let_def split_beta)

lemma createRichMenu_keeps: "keeps_configuration (createRichMenu richMenu opts)"
  unfolding keeps_configuration_def
  by (simp add: createRichMenu_def axios_verb_defs axios_request_this Let_def split_beta)

lemma deleteRichMenu_keeps: "keeps_configuration (deleteRichMenu richMenuId opts)"
  unfolding keeps_configuration_def
  by (simp add: deleteRichMenu_def axios_verb_defs axios_request_this Let_def split_beta)

lemma linkRichMenu_keeps: "keeps_configuration (linkRichMenu userId richMenuId opts)"
  unfolding keeps_configuration_def
  by (simp add: linkRichMenu_def axios_verb_defs axios_request_this Let_def split_beta)

lemma unlinkRichMenu_keeps: "keeps_configuration (unlinkRichMenu userId opts)"
  unfolding keeps_configuration_def
  by (simp add: unlinkRichMenu_def axios_verb_defs axios_request_this Let_def split_beta)

lemma setDefaultRichMenu_keeps: "keeps_configuration (setDefaultRichMenu richMenuId opts)"
  unfolding keeps_configuration_def
  by (simp add: setDefaultRichMenu_def axios_verb_defs axios_request_this Let_def split_beta)

lemma deleteDefaultRichMenu_keeps: "keeps_configuration (deleteDefaultRichMenu opts)"
  unfolding keeps_configuration_def
  by (simp add: deleteDefaultRichMenu_def axios_verb_defs axios_request_this Let_def split_beta)

lemma issueLinkToken_keeps: "keeps_configuration (issueLinkToken userId opts)"
  unfolding keeps_configuration_def
  by (simp add: issueLinkToken_def axios_verb_defs axios_request_this Let_def split_beta)

lemma getLiffAppList_keeps: "keeps_configuration (getLiffAppList opts)"
  unfolding keeps_configuration_def
  by (simp add: getLiffAppList_def axios_verb_defs axios_request_this Let_def split_beta)

lemma createLiffApp_keeps: "keeps_configuration (createLiffApp view opts)"
  unfolding keeps_configuration_def
  by (simp add: createLiffApp_def axios_verb_defs axios_request_this Let_def split_beta)

lemma updateLiffApp_keeps: "keeps_configuration (updateLiffApp liffId view opts)"
  unfolding keeps_configuration_def
  by (simp add: updateLiffApp_def axios_verb_defs axios_request_this Let_def split_beta)

lemma deleteLiffApp_keeps: "keeps_configuration (deleteLiffApp liffId opts)"
  unfolding keeps_configuration_def
  by (simp add: deleteLiffApp_def axios_verb_defs axios_request_this Let_def split_beta)

lemma getUserProfile_keeps: "keeps_configuration (getUserProfile userId opts)"
  unfolding keeps_configuration_def
  by (simp add: getUserProfile_def axios_verb_defs axios_request_this Let_def split_beta)

lemma getRichMenu_keeps: "keeps_configuration (getRichMenu richMenuId opts)"
  unfolding keeps_configuration_def
  by (simp add: getRichMenu_def axios_verb_defs axios_request_this Let_def split_beta)

lemma getLinkedRichMenu_keeps: "keeps_configuration (getLinkedRichMenu userId opts)"
  unfolding keeps_configuration_def
  by (simp add: getLinkedRichMenu_def axios_verb_defs axios_request_this Let_def split_beta)

lemma getDefaultRichMenu_keeps: "keeps_configuration (getDefaultRichMenu opts)"
  unfolding keeps_configuration_def
  by (simp add: getDefaultRichMenu_def axios_verb_defs axios_request_this Let_def split_beta)

lemma downloadRichMenuImage_keeps: "keeps_configuration (downloadRichMenuImage richMenuId opts)"
  unfolding keeps_configuration_def
  by (simp add: downloadRichMenuImage_def axios_verb_defs axios_request_this Let_def split_beta)

lemma uploadRichMenuImage_keeps:
  "keeps_configuration (uploadRichMenuImage imageType richMenuId image_buffer opts)"
  unfolding keeps_configuration_def
  by (simp add: uploadRichMenuImage_def axios_verb_defs axios_request_this Let_def split_beta
      split: option.split)

lemma group_loop_this:
  "this (snd (getAllGroupMemberIds_loop groupId opts acc cursor s)) = this s"
proof (induction groupId opts acc cursor s rule: getAllGroupMemberIds_loop.induct)
  case (1 groupId opts allMemberIds continuationToken s)
  have fetch: "this (snd (getGroupMemberIds groupId continuationToken opts s)) = this s"
    by (rule getGroupMemberIds_keeps [unfolded keeps_configuration_def, rule_format])
  show ?case
  proof (cases "getGroupMemberIds groupId continuationToken opts s")
    case (Pair p s')
    with fetch have s': "this s' = this s" by simp
    show ?thesis
    proof (cases p)
      case None
      with Pair s' show ?thesis
        by (subst getAllGroupMemberIds_loop.simps) simp
    next
      case (Some r)
      show ?thesis
      proof (cases r)
        case (Inl err)
        with Pair Some s' show ?thesis
          by (subst getAllGroupMemberIds_loop.simps) simp
      next
        case (Inr page)
        show ?thesis
        proof (cases "truthy (next page)")
          case True
          have "this (snd (getAllGroupMemberIds_loop groupId opts (allMemberIds @ memberIds page)
                  (next page) s')) = this s'"
            using Pair Some Inr True by (intro "1.IH") simp_all
          with Pair Some Inr True s' show ?thesis
            by (subst getAllGroupMemberIds_loop.simps) (simp add: Let_def)
        next
          case False
          with Pair Some Inr s' show ?thesis
            by (subst getAllGroupMemberIds_loop.simps) (simp add: Let_def)
        qed
      qed
    qed
  qed
qed

lemma room_loop_this:
  "this (snd (getAllRoomMemberIds_loop roomId opts acc cursor s)) = this s"
proof (induction roomId opts acc cursor s rule: getAllRoomMemberIds_loop.induct)
  case (1 roomId opts allMemberIds continuationToken s)
  have fetch: "this (snd (getRoomMemberIds roomId continuationToken opts s)) = this s"
    by (rule getRoomMemberIds_keeps [unfolded keeps_configuration_def, rule_format])
  show ?case
  proof (cases "getRoomMemberIds roomId continuationToken opts s")
    case (Pair p s')
    with fetch have s': "this s' = this s" by simp
    show ?thesis
    proof (cases p)
      case None
      with Pair s' show ?thesis
        by (subst getAllRoomMemberIds_loop.simps) simp
    next
      case (Some r)
      show ?thesis
      proof (cases r)
        case (Inl err)
        with Pair Some s' show ?thesis
          by (subst getAllRoomMemberIds_loop.simps) simp
      next
        case (Inr page)
        show ?thesis
        proof (cases "truthy (next page)")
          case True
          have "this (snd (getAllRoomMemberIds_loop roomId opts (allMemberIds @ memberIds page)
                  (next page) s')) = this s'"
            using Pair Some Inr True by (intro "1.IH") simp_all
          with Pair Some Inr True s' show ?thesis
            by (subst getAllRoomMemberIds_loop.simps) (simp add: Let_def)
        next
          case False
          with Pair Some Inr s' show ?thesis
            by (subst getAllRoomMemberIds_loop.simps) (simp add: Let_def)
        qed
      qed
    qed
  qed
qed

lemma getAllGroupMemberIds_keeps: "keeps_configuration (getAllGroupMemberIds groupId opts)"
  by (simp add: keeps_configuration_def getAllGroupMemberIds_def group_loop_this)

lemma getAllRoomMemberIds_keeps: "keeps_configuration (getAllRoomMemberIds roomId opts)"
  by (simp add: keeps_configuration_def getAllRoomMemberIds_def room_loop_this)

text \<open>
  Claim C9. The client object made by the constructor (the access token, the channel
  secret, the observer, and the base URL and default headers of its axios instance) is
  the same after every operation as before it, whatever the network answers and
  whatever per-call options, an access token override among them, the call is given.
\<close>

theorem configuration_is_immutable:
  "keeps_configuration (replyRawBody body opts)
   \<and> keeps_configuration (pushRawBody body opts)
   \<and> keeps_configuration (multicastRawBody body opts)
   \<and> keeps_configuration (reply target messages opts)
   \<and> keeps_configuration (push target messages opts)
   \<and> keeps_configuration (multicast target messages opts)
   \<and> keeps_configuration (priv_send type target messages opts)
   \<and> keeps_configuration (replyMessages target messages opts)
   \<and> keeps_configuration (pushMessages target messages opts)
   \<and> keeps_configuration (multicastMessages target messages opts)
   \<and> keeps_configuration (retrieveMessageContent messageId opts)
   \<and> keeps_configuration (getGroupMemberProfile groupId userId opts)
   \<and> keeps_configuration (getRoomMemberProfile roomId userId opts)
   \<and> keeps_configuration (getGroupMemberIds groupId start opts)
   \<and> keeps_configuration (getRoomMemberIds roomId start opts)
   \<and> keeps_configuration (leaveGroup groupId opts)
   \<and> keeps_configuration (leaveRoom roomId opts)
   \<and> keeps_configuration (getRichMenuList opts)
   \<and> keeps_configuration (createRichMenu richMenu opts)
   \<and> keeps_configuration (deleteRichMenu richMenuId opts)
   \<and> keeps_configuration (linkRichMenu userId richMenuId opts)
   \<and> keeps_configuration (unlinkRichMenu userId opts)
   \<and> keeps_configuration (setDefaultRichMenu richMenuId opts)
   \<and> keeps_configuration (deleteDefaultRichMenu opts)
   \<and> keeps_configuration (issueLinkToken userId opts)
   \<and> keeps_configuration (getLiffAppList opts)
   \<and> keeps_configuration (createLiffApp view opts)
   \<and> keeps_configuration (updateLiffApp liffId view opts)
   \<and> keeps_configuration (deleteLiffApp liffId opts)
   \<and> keeps_configuration (getUserProfile userId opts)
   \<and> keeps_configuration (getRichMenu richMenuId opts)
   \<and> keeps_configuration (getLinkedRichMenu userId opts)
   \<and> keeps_configuration (getDefaultRichMenu opts)
   \<and> keeps_configuration (downloadRichMenuImage richMenuId opts)
   \<and> keeps_configuration (getAllGroupMemberIds groupId opts)
   \<and> keeps_configuration (getAllRoomMemberIds roomId opts)
   \<and> keeps_configuration (uploadRichMenuImage imageType richMenuId image_buffer opts)"
  by (intro conjI)
     (rule replyRawBody_keeps pushRawBody_keeps multicastRawBody_keeps reply_keeps
       push_keeps multicast_keeps priv_send_keeps replyMessages_keeps
       pushMessages_keeps multicastMessages_keeps retrieveMessageContent_keeps getGroupMemberProfile_keeps
       getRoomMemberProfile_keeps getGroupMemberIds_keeps getRoomMemberIds_keeps leaveGroup_keeps
       leaveRoom_keeps getRichMenuList_keeps createRichMenu_keeps deleteRichMenu_keeps
       linkRichMenu_keeps unlinkRichMenu_keeps setDefaultRichMenu_keeps deleteDefaultRichMenu_keeps
       issueLinkToken_keeps getLiffAppList_keeps createLiffApp_keeps updateLiffApp_keeps
       deleteLiffApp_keeps getUserProfile_keeps getRichMenu_keeps getLinkedRichMenu_keeps
       getDefaultRichMenu_keeps downloadRichMenuImage_keeps getAllGroupMemberIds_keeps getAllRoomMemberIds_keeps
       uploadRichMenuImage_keeps)+

section \<open>The per-call access token\<close>

text \<open>
  The constructor puts the default credential into the instance's headers.
\<close>

lemma new_LineClient_authorization:
  "headers (priv_axios (new_LineClient onRequest arg channelSecret)) ''Authorization'' =
     Some (''Bearer '' @ priv_accessToken (new_LineClient onRequest arg channelSecret))"
  by (simp add: new_LineClient_def Let_def split: accessTokenOrConfig.split)

text \<open>
  The configuration written in all methods but the image upload and download makes the
  header \<open>Bearer <override>\<close> for every override that is not \<^verbatim>\<open>undefined\<close>, the
  empty one too, and leaves the default in place otherwise.
\<close>

lemma bearer_config_authorization:
  assumes "headers inst ''Authorization'' = Some (''Bearer '' @ default_token)"
  shows "(headers inst ++
            (case bearer_config customAccessToken of None \<Rightarrow> Map.empty
             | Some c \<Rightarrow> config_headers c)) ''Authorization'' =
         Some (''Bearer '' @ (case customAccessToken of None \<Rightarrow> default_token | Some t \<Rightarrow> t))"
  using assms by (simp add: bearer_config_def split: option.split)

text \<open>
  The spread written in \<open>uploadRichMenuImage\<close> and \<open>downloadRichMenuImage\<close> adds the
  header only for a truthy override.
\<close>

lemma spread_authorization_header:
  assumes "headers inst ''Authorization'' = Some (''Bearer '' @ default_token)"
  shows "(headers inst ++ (extra ++ spread_authorization customAccessToken)) ''Authorization'' =
         (case customAccessToken of
            None \<Rightarrow> (headers inst ++ extra) ''Authorization''
          | Some t \<Rightarrow> if t = [] then (headers inst ++ extra) ''Authorization''
                      else Some (''Bearer '' @ t))"
  by (simp add: spread_authorization_def map_add_def split: option.split)

lemma credential_resolved_elsewhere:
  "resolves_credential (replyRawBody body)
   \<and> resolves_credential (pushRawBody body)
   \<and> resolves_credential (multicastRawBody body)
   \<and> resolves_credential (reply target messages)
   \<and> resolves_credential (push target messages)
   \<and> resolves_credential (multicast target messages)
   \<and> resolves_credential (priv_send type target messages)
   \<and> resolves_credential (replyMessages target messages)
   \<and> resolves_credential (pushMessages target messages)
   \<and> resolves_credential (multicastMessages target messages)
   \<and> resolves_credential (retrieveMessageContent messageId)
   \<and> resolves_credential (getGroupMemberProfile groupId userId)
   \<and> resolves_credential (getRoomMemberProfile roomId userId)
   \<and> resolves_credential (getGroupMemberIds groupId start)
   \<and> resolves_credential (getRoomMemberIds roomId start)
   \<and> resolves_credential (leaveGroup groupId)
   \<and> resolves_credential (leaveRoom roomId)
   \<and> resolves_credential (getRichMenuList)
   \<and> resolves_credential (createRichMenu richMenu)
   \<and> resolves_credential (deleteRichMenu richMenuId)
   \<and> resolves_credential (linkRichMenu userId richMenuId)
   \<and> resolves_credential (unlinkRichMenu userId)
   \<and> resolves_credential (setDefaultRichMenu richMenuId)
   \<and> resolves_credential (deleteDefaultRichMenu)
   \<and> resolves_credential (issueLinkToken userId)
   \<and> resolves_credential (getLiffAppList)
   \<and> resolves_credential (createLiffApp view)
   \<and> resolves_credential (updateLiffApp liffId view)
   \<and> resolves_credential (deleteLiffApp liffId)
   \<and> resolves_credential (getUserProfile userId)
   \<and> resolves_credential (getRichMenu richMenuId)
   \<and> resolves_credential (getLinkedRichMenu userId)
   \<and> resolves_credential (getDefaultRichMenu)"
  unfolding resolves_credential_def
  by (intro conjI allI impI)
     (simp add: send_defs endpoint_defs axios_verb_defs axios_request_sent Let_def split_beta
        bearer_config_def split: option.split)+

text \<open>
  Claim C2 holds for every method but two. In \<open>uploadRichMenuImage\<close> and
  \<open>downloadRichMenuImage\<close> an explicitly empty override is dropped: on a client whose
  default token is \<open>DEFAULT\<close> the request goes out with \<open>Bearer DEFAULT\<close>, where
  \<open>getRichMenu\<close> with the same options sends \<open>Bearer \<close> followed by the empty token.
\<close>

theorem empty_override_in_image_transfer:
  "map (\<lambda>q. req_headers q ''Authorization'')
     (sent (snd (uploadRichMenuImage (\<lambda>b. Some \<lparr>ext = ''png'', mime = ''image/png''\<rparr>)
        ''richmenu-1'' [0x89, 0x50, 0x4E, 0x47] \<lparr>accessToken = Some []\<rparr>
        \<lparr>this = new_LineClient () (Token ''DEFAULT'') None,
         pending = ([] :: (error + unit axios_response) list),
         sent = ([] :: unit request list)\<rparr>))) = [Some ''Bearer DEFAULT'']
   \<and> map (\<lambda>q. req_headers q ''Authorization'')
     (sent (snd (downloadRichMenuImage ''richmenu-1'' \<lparr>accessToken = Some []\<rparr>
        \<lparr>this = new_LineClient () (Token ''DEFAULT'') None,
         pending = [], sent = ([] :: unit request list)\<rparr>))) = [Some ''Bearer DEFAULT'']
   \<and> map (\<lambda>q. req_headers q ''Authorization'')
     (sent (snd (getRichMenu ''richmenu-1'' \<lparr>accessToken = Some []\<rparr>
        \<lparr>this = new_LineClient () (Token ''DEFAULT'') None,
         pending = ([] :: (error + unit axios_response) list),
         sent = ([] :: unit request list)\<rparr>))) = [Some ''Bearer '']"
  by (simp add: uploadRichMenuImage_def downloadRichMenuImage_def getRichMenu_def
      axios_verb_defs axios_request_sent Let_def split_beta new_LineClient_def
      spread_authorization_def bearer_config_def map_add_def)

end
